theory Spec2Isabelle
  imports Complex_Main "HOL-Library.Multiset"
begin

section \<open>Vendor overlap detection and analytics: the data model\<close>

text \<open>
  The engine of \<^verbatim>\<open>modules/data_processor.py\<close> and \<^verbatim>\<open>app.py\<close> works on a table of vendor
  rows (a pandas DataFrame, one row per vendor, in ingestion order) and on the list of
  dictionaries built from it for the web client. Python floats are modelled as reals; a
  cell that may hold NaN is an option, \<open>None\<close> standing for NaN.
\<close>

datatype category = High | Medium | Low

text \<open>A row of \<^verbatim>\<open>vendors_df\<close> after \<^verbatim>\<open>_process_vendor_data\<close> has filled the numeric columns.\<close>

record vendor =
  vendor_code :: string
  vendor_name :: string
  latitude :: real
  longitude :: real
  total_order_count :: real
  organic_order_count :: real
  non_organic_order_count :: real
  organic_to_non_organic_ratio :: "real option"
  avg_daily_orders :: real
  performance_score :: real
  volume_category :: category

text \<open>Configuration constants of \<^verbatim>\<open>config.py\<close>.\<close>

definition SERVICE_RADIUS :: real where
  "SERVICE_RADIUS = 3000"

definition MAX_VENDORS_FOR_OVERLAP :: nat where
  "MAX_VENDORS_FOR_OVERLAP = 500"

section \<open>Geometry: the planar-degree distance\<close>

text \<open>
  \<^verbatim>\<open>((vendor1[1] - vendor2[1])**2 + (vendor1[2] - vendor2[2])**2)**0.5\<close>: the Euclidean
  distance of two coordinates, in degrees.
\<close>

definition degree_distance :: "vendor \<Rightarrow> vendor \<Rightarrow> real" where
  "degree_distance v1 v2 =
     sqrt ((latitude v1 - latitude v2)\<^sup>2 + (longitude v1 - longitude v2)\<^sup>2)"

text \<open>\<^verbatim>\<open>overlap_threshold = config.SERVICE_RADIUS * 2 / 111000\<close> (data_processor.py).\<close>

definition overlap_threshold :: real where
  "overlap_threshold = SERVICE_RADIUS * 2 / 111000"

text \<open>The test of \<^verbatim>\<open>_calculate_simple_overlaps\<close> and \<^verbatim>\<open>_calculate_overlaps_for_subset\<close>.\<close>

definition simple_overlap :: "vendor \<Rightarrow> vendor \<Rightarrow> bool" where
  "simple_overlap v1 v2 \<longleftrightarrow> degree_distance v1 v2 < overlap_threshold"

section \<open>Overlap engine\<close>

text \<open>What the approximate loops accumulate: the set \<^verbatim>\<open>overlapping\<close> of vendor codes and
  the list \<^verbatim>\<open>pairs\<close>, in the order of discovery.\<close>

type_synonym overlap_acc = "string set \<times> (string \<times> string) list"

text \<open>
  \<^verbatim>\<open>for vendor2 in vendors[i+1:]\<close>: the inner loop of the approximate mode, over the rows
  after \<open>v1\<close>, threading the set of overlapping codes and the list of pairs.
\<close>

fun simple_overlaps_inner :: "vendor \<Rightarrow> vendor list \<Rightarrow> overlap_acc \<Rightarrow> overlap_acc" where
  "simple_overlaps_inner v1 [] acc = acc"
| "simple_overlaps_inner v1 (v2 # rest) (overlapping, pairs) =
     simple_overlaps_inner v1 rest
       (if degree_distance v1 v2 < overlap_threshold
        then (insert (vendor_code v2) (insert (vendor_code v1) overlapping),
              pairs @ [(vendor_code v1, vendor_code v2)])
        else (overlapping, pairs))"

text \<open>\<^verbatim>\<open>for i, vendor1 in enumerate(vendors)\<close>: the outer loop.\<close>

fun simple_overlaps_outer :: "vendor list \<Rightarrow> overlap_acc \<Rightarrow> overlap_acc" where
  "simple_overlaps_outer [] acc = acc"
| "simple_overlaps_outer (v1 # rest) acc =
     simple_overlaps_outer rest (simple_overlaps_inner v1 rest acc)"

text \<open>\<^verbatim>\<open>itertools.combinations(vendor_list, 2)\<close>: all pairs, in lexicographic index order.\<close>

fun combinations2 :: "'a list \<Rightarrow> ('a \<times> 'a) list" where
  "combinations2 [] = []"
| "combinations2 (x # xs) = map (Pair x) xs @ combinations2 xs"

text \<open>
  The state of a \<^verbatim>\<open>DataProcessor\<close> that the overlap and statistics passes read and
  write. Exact mode asks shapely whether the buffered, projected points of two rows
  intersect and for the intersection polygon; both are parameters of the model
  (\<open>intersects\<close>, \<open>intersection\<close>), the polygons being values of a type \<open>'g\<close>.
  A statistic that pandas may report as NaN is an option. The wall-clock entries of the
  statistics dictionary (\<^verbatim>\<open>processing_times\<close>, \<^verbatim>\<open>last_update\<close>) are left out.
\<close>

record metric_stats =
  stat_mean :: "real option"
  stat_median :: "real option"
  stat_std :: "real option"
  stat_max :: "real option"
  stat_min :: "real option"
  stat_sum :: real

record statistics =
  total_vendors :: nat
  overlapping_vendors :: nat
  overlap_rate :: real
  total_order_count_stats :: metric_stats
  organic_order_count_stats :: metric_stats
  non_organic_order_count_stats :: metric_stats
  avg_daily_orders_stats :: metric_stats
  lat_center :: "real option"
  lon_center :: "real option"
  lat_span :: "real option"
  lon_span :: "real option"
  vendor_density :: real
  high_volume_count :: nat
  medium_volume_count :: nat
  low_volume_count :: nat

record 'g data_processor =
  vendors_df :: "vendor list"
  overlapping_vendor_codes :: "string set"
  overlap_pairs :: "(string \<times> string) list"
  intersection_geometries :: "'g list"
  vendor_statistics :: "statistics option"

text \<open>\<^verbatim>\<open>DataProcessor.__init__\<close>, with the table that \<^verbatim>\<open>load_data\<close> stores.\<close>

definition init_processor :: "vendor list \<Rightarrow> 'g data_processor" where
  "init_processor df =
     \<lparr>vendors_df = df, overlapping_vendor_codes = {}, overlap_pairs = [],
      intersection_geometries = [], vendor_statistics = None\<rparr>"

text \<open>\<^verbatim>\<open>_calculate_simple_overlaps\<close>: the approximate mode of the initial pass.\<close>

definition calculate_simple_overlaps :: "'g data_processor \<Rightarrow> 'g data_processor" where
  "calculate_simple_overlaps st =
     (case simple_overlaps_outer (vendors_df st) ({}, []) of
        (overlapping, pairs) \<Rightarrow>
          st\<lparr>overlapping_vendor_codes := overlapping, overlap_pairs := pairs,
             intersection_geometries := []\<rparr>)"

text \<open>
  The loop of exact mode, \<^verbatim>\<open>for vendor1, vendor2 in itertools.combinations(vendor_list, 2)\<close>,
  threading the code set, the pairs and the intersection polygons.
\<close>

fun exact_overlaps_loop ::
  "(vendor \<Rightarrow> vendor \<Rightarrow> bool) \<Rightarrow> (vendor \<Rightarrow> vendor \<Rightarrow> 'g) \<Rightarrow> (vendor \<times> vendor) list \<Rightarrow>
   string set \<times> (string \<times> string) list \<times> 'g list \<Rightarrow>
   string set \<times> (string \<times> string) list \<times> 'g list" where
  "exact_overlaps_loop intersects intersection [] acc = acc"
| "exact_overlaps_loop intersects intersection ((v1, v2) # rest) (overlapping, pairs, geoms) =
     exact_overlaps_loop intersects intersection rest
       (if intersects v1 v2
        then (overlapping \<union> set [vendor_code v1, vendor_code v2],
              pairs @ [(vendor_code v1, vendor_code v2)],
              geoms @ [intersection v1 v2])
        else (overlapping, pairs, geoms))"

text \<open>\<^verbatim>\<open>_calculate_overlaps\<close>: nothing on an empty table, approximate mode above the
  ceiling, exact mode otherwise.\<close>

definition calculate_overlaps ::
  "(vendor \<Rightarrow> vendor \<Rightarrow> bool) \<Rightarrow> (vendor \<Rightarrow> vendor \<Rightarrow> 'g) \<Rightarrow> 'g data_processor \<Rightarrow>
   'g data_processor" where
  "calculate_overlaps intersects intersection st =
     (if vendors_df st = [] then st
      else if length (vendors_df st) > MAX_VENDORS_FOR_OVERLAP then calculate_simple_overlaps st
      else (case exact_overlaps_loop intersects intersection
                   (combinations2 (vendors_df st)) ({}, [], []) of
              (overlapping, pairs, geoms) \<Rightarrow>
                st\<lparr>overlapping_vendor_codes := overlapping, overlap_pairs := pairs,
                   intersection_geometries := geoms\<rparr>))"

text \<open>\<^verbatim>\<open>_calculate_overlaps_for_subset\<close>: the recomputation used by real-time filtering.\<close>

fun subset_overlaps_inner :: "vendor \<Rightarrow> vendor list \<Rightarrow> string set \<Rightarrow> string set" where
  "subset_overlaps_inner v1 [] overlapping = overlapping"
| "subset_overlaps_inner v1 (v2 # rest) overlapping =
     subset_overlaps_inner v1 rest
       (if degree_distance v1 v2 < overlap_threshold
        then insert (vendor_code v2) (insert (vendor_code v1) overlapping)
        else overlapping)"

fun subset_overlaps_outer :: "vendor list \<Rightarrow> string set \<Rightarrow> string set" where
  "subset_overlaps_outer [] overlapping = overlapping"
| "subset_overlaps_outer (v1 # rest) overlapping =
     subset_overlaps_outer rest (subset_overlaps_inner v1 rest overlapping)"

definition calculate_overlaps_for_subset :: "vendor list \<Rightarrow> string set" where
  "calculate_overlaps_for_subset vendors_subset =
     (if length vendors_subset < 2 then {}
      else subset_overlaps_outer vendors_subset {})"

section \<open>Metrics engine\<close>

subsection \<open>The pandas reductions the engine calls\<close>

text \<open>
  Reductions of a numeric column without NaN cells. pandas returns NaN (\<open>None\<close>) for the
  maximum, minimum, mean, median and quantile of an empty column, and for the sample
  standard deviation (\<^verbatim>\<open>ddof=1\<close>, the default of \<^verbatim>\<open>Series.std\<close>) of fewer than two
  values; the sum of an empty column is 0. The cells are reals: the sum of an integer
  column is the mathematical sum, without the wrap-around of a 64-bit integer column.
\<close>

definition series_max :: "real list \<Rightarrow> real option" where
  "series_max xs = (if xs = [] then None else Some (Max (set xs)))"

definition series_min :: "real list \<Rightarrow> real option" where
  "series_min xs = (if xs = [] then None else Some (Min (set xs)))"

definition series_sum :: "real list \<Rightarrow> real" where
  "series_sum xs = sum_list xs"

definition series_mean :: "real list \<Rightarrow> real option" where
  "series_mean xs = (if xs = [] then None else Some (sum_list xs / real (length xs)))"

definition series_median :: "real list \<Rightarrow> real option" where
  "series_median xs =
     (let s = sort xs; n = length xs
      in if n = 0 then None
         else if odd n then Some (s ! (n div 2))
         else Some ((s ! (n div 2 - 1) + s ! (n div 2)) / 2))"

definition series_std :: "real list \<Rightarrow> real option" where
  "series_std xs =
     (let n = length xs
      in if n < 2 then None
         else (case series_mean xs of
                 None \<Rightarrow> None
               | Some m \<Rightarrow> Some (sqrt (sum_list (map (\<lambda>x. (x - m)\<^sup>2) xs) / real (n - 1)))))"

text \<open>
  \<^verbatim>\<open>Series.quantile(q)\<close> with the default \<^verbatim>\<open>interpolation='linear'\<close>: the value at the
  fractional position \<open>q * (n - 1)\<close> of the sorted column, interpolated between its two
  neighbours.
\<close>

definition series_quantile :: "real \<Rightarrow> real list \<Rightarrow> real option" where
  "series_quantile q xs =
     (let s = sort xs; n = length xs
      in if n = 0 then None
         else (let pos = q * real (n - 1);
                   lo = nat \<lfloor>pos\<rfloor>;
                   hi = min (lo + 1) (n - 1);
                   frac = pos - real lo
               in Some (s ! lo + (s ! hi - s ! lo) * frac)))"

text \<open>A comparison with a value that may be NaN: false when it is NaN.\<close>

fun ge_nan :: "real \<Rightarrow> real option \<Rightarrow> bool" where
  "ge_nan x None = False"
| "ge_nan x (Some t) = (t \<le> x)"

subsection \<open>Performance score\<close>

text \<open>
  The operands of \<^verbatim>\<open>_calculate_performance_score\<close>: a normalised column is a pandas
  Series when the column's maximum is positive, and the Python number 0 otherwise.
  Arithmetic of a Series with a number is elementwise and gives a Series; arithmetic of
  two numbers gives a number, which has no method \<^verbatim>\<open>fillna\<close>.
\<close>

datatype py_error = AttributeError

datatype operand = Series "real list" | Scalar real

fun op_times :: "operand \<Rightarrow> real \<Rightarrow> operand" where
  "op_times (Series xs) c = Series (map (\<lambda>x. x * c) xs)"
| "op_times (Scalar x) c = Scalar (x * c)"

fun op_plus :: "operand \<Rightarrow> operand \<Rightarrow> operand" where
  "op_plus (Series xs) (Series ys) = Series (map2 (+) xs ys)"
| "op_plus (Series xs) (Scalar y) = Series (map (\<lambda>x. x + y) xs)"
| "op_plus (Scalar x) (Series ys) = Series (map (\<lambda>y. x + y) ys)"
| "op_plus (Scalar x) (Scalar y) = Scalar (x + y)"

text \<open>\<^verbatim>\<open>df[col] / df[col].max() if df[col].max() > 0 else 0\<close>\<close>

definition normalize_by_max :: "real list \<Rightarrow> operand" where
  "normalize_by_max xs =
     (case series_max xs of
        None \<Rightarrow> Scalar 0
      | Some m \<Rightarrow> if 0 < m then Series (map (\<lambda>x. x / m) xs) else Scalar 0)"

text \<open>
  \<^verbatim>\<open>_calculate_performance_score\<close>. \<^verbatim>\<open>score.fillna(0)\<close> changes nothing on a Series
  without NaN and raises AttributeError when \<^verbatim>\<open>score\<close> is a number.
\<close>

definition calculate_performance_score :: "vendor list \<Rightarrow> py_error + real list" where
  "calculate_performance_score df =
     (let total_orders_norm = normalize_by_max (map total_order_count df);
          daily_orders_norm = normalize_by_max (map avg_daily_orders df);
          score = op_times (op_plus (op_times total_orders_norm 0.6)
                                    (op_times daily_orders_norm 0.4)) 100
      in case score of
           Series s \<Rightarrow> Inr s
         | Scalar x \<Rightarrow> Inl AttributeError)"

subsection \<open>Volume category\<close>

text \<open>The inner function \<^verbatim>\<open>categorize\<close> of \<^verbatim>\<open>_categorize_volume\<close>.\<close>

definition categorize :: "real option \<Rightarrow> real option \<Rightarrow> real \<Rightarrow> category" where
  "categorize high_threshold low_threshold orders =
     (if ge_nan orders high_threshold then High
      else if ge_nan orders low_threshold then Medium
      else Low)"

definition categorize_volume :: "vendor list \<Rightarrow> category list" where
  "categorize_volume df =
     (let high_threshold = series_quantile 0.75 (map total_order_count df);
          low_threshold = series_quantile 0.25 (map total_order_count df)
      in map (categorize high_threshold low_threshold) (map total_order_count df))"

text \<open>
  The last step of \<^verbatim>\<open>_process_vendor_data\<close>: the two derived columns are computed over
  the whole table and stored in it.
\<close>

definition add_performance_indicators :: "vendor list \<Rightarrow> py_error + vendor list" where
  "add_performance_indicators vendors =
     (case calculate_performance_score vendors of
        Inl e \<Rightarrow> Inl e
      | Inr score \<Rightarrow>
          (let df1 = map2 (\<lambda>v s. v\<lparr>performance_score := s\<rparr>) vendors score
           in Inr (map2 (\<lambda>v c. v\<lparr>volume_category := c\<rparr>) df1 (categorize_volume df1))))"

subsection \<open>Aggregate statistics\<close>

definition column_stats :: "real list \<Rightarrow> metric_stats" where
  "column_stats xs =
     \<lparr>stat_mean = series_mean xs, stat_median = series_median xs, stat_std = series_std xs,
      stat_max = series_max xs, stat_min = series_min xs, stat_sum = series_sum xs\<rparr>"

fun nan_minus :: "real option \<Rightarrow> real option \<Rightarrow> real option" where
  "nan_minus (Some a) (Some b) = Some (a - b)"
| "nan_minus _ _ = None"

fun nan_times :: "real option \<Rightarrow> real option \<Rightarrow> real option" where
  "nan_times (Some a) (Some b) = Some (a * b)"
| "nan_times _ _ = None"

text \<open>\<^verbatim>\<open>_calculate_statistics\<close>: returns at once on an empty table, leaving the stored
  statistics as they were.\<close>

definition calculate_statistics :: "'g data_processor \<Rightarrow> 'g data_processor" where
  "calculate_statistics st =
     (if vendors_df st = [] then st
      else
        (let df = vendors_df st;
             total = length df;
             overlapping = card (overlapping_vendor_codes st);
             rate = (if total > 0 then real overlapping / real total * 100 else 0);
             span_lat = nan_minus (series_max (map latitude df)) (series_min (map latitude df));
             span_lon = nan_minus (series_max (map longitude df)) (series_min (map longitude df));
             area_km2 = map_option (\<lambda>a. a * 111000 * 111000 / 1000000) (nan_times span_lat span_lon)
         in st\<lparr>vendor_statistics := Some
              \<lparr>total_vendors = total,
               overlapping_vendors = overlapping,
               overlap_rate = rate,
               total_order_count_stats = column_stats (map total_order_count df),
               organic_order_count_stats = column_stats (map organic_order_count df),
               non_organic_order_count_stats = column_stats (map non_organic_order_count df),
               avg_daily_orders_stats = column_stats (map avg_daily_orders df),
               lat_center = series_mean (map latitude df),
               lon_center = series_mean (map longitude df),
               lat_span = span_lat,
               lon_span = span_lon,
               vendor_density = (case area_km2 of
                                   None \<Rightarrow> 0
                                 | Some a \<Rightarrow> if 0 < a then real total / a else 0),
               high_volume_count = length (filter (\<lambda>v. volume_category v = High) df),
               medium_volume_count = length (filter (\<lambda>v. volume_category v = Medium) df),
               low_volume_count = length (filter (\<lambda>v. volume_category v = Low) df)\<rparr>\<rparr>))"

subsection \<open>The initial pass\<close>

text \<open>
  \<^verbatim>\<open>load_data\<close> from the point where the order and geo tables have been read, merged and
  cleaned (\<open>merged\<close>): the derived columns are added, an empty table makes it return
  False (\<open>None\<close>), otherwise the overlaps and then the statistics are computed. An
  exception of the derived columns is not caught.
\<close>

definition load_data ::
  "(vendor \<Rightarrow> vendor \<Rightarrow> bool) \<Rightarrow> (vendor \<Rightarrow> vendor \<Rightarrow> 'g) \<Rightarrow> vendor list \<Rightarrow>
   py_error + 'g data_processor option" where
  "load_data intersects intersection merged =
     (case add_performance_indicators merged of
        Inl e \<Rightarrow> Inl e
      | Inr df \<Rightarrow>
          if df = [] then Inr None
          else Inr (Some (calculate_statistics
                            (calculate_overlaps intersects intersection (init_processor df)))))"

section \<open>Filter session\<close>

text \<open>
  The dictionary built for the web client from a row. The key \<^verbatim>\<open>rank\<close> is absent
  (\<open>None\<close>) until \<^verbatim>\<open>get_rankings\<close> of app.py stores it.
\<close>

record vendor_js =
  js_vendor_code :: string
  js_vendor_name :: string
  js_latitude :: real
  js_longitude :: real
  js_total_order_count :: int
  js_organic_order_count :: int
  js_non_organic_order_count :: int
  js_organic_to_non_organic_ratio :: real
  js_avg_daily_orders :: real
  js_is_overlapping :: bool
  js_performance_score :: real
  js_volume_category :: category
  js_rank :: "nat option"

text \<open>Python's \<^verbatim>\<open>int(x)\<close> of a float: truncation towards zero.\<close>

definition py_int :: "real \<Rightarrow> int" where
  "py_int x = (if 0 \<le> x then \<lfloor>x\<rfloor> else \<lceil>x\<rceil>)"

text \<open>The dictionary of one row, as both \<^verbatim>\<open>get_vendor_data_for_js\<close> and
  \<^verbatim>\<open>filter_vendors_real_time\<close> build it, given the set of overlapping codes.\<close>

definition vendor_dict :: "string set \<Rightarrow> vendor \<Rightarrow> vendor_js" where
  "vendor_dict overlapping v =
     \<lparr>js_vendor_code = vendor_code v,
      js_vendor_name = vendor_name v,
      js_latitude = latitude v,
      js_longitude = longitude v,
      js_total_order_count = py_int (total_order_count v),
      js_organic_order_count = py_int (organic_order_count v),
      js_non_organic_order_count = py_int (non_organic_order_count v),
      js_organic_to_non_organic_ratio =
        (case organic_to_non_organic_ratio v of None \<Rightarrow> 0 | Some r \<Rightarrow> r),
      js_avg_daily_orders = avg_daily_orders v,
      js_is_overlapping = (vendor_code v \<in> overlapping),
      js_performance_score = performance_score v,
      js_volume_category = volume_category v,
      js_rank = None\<rparr>"

definition get_vendor_data_for_js :: "'g data_processor \<Rightarrow> vendor_js list" where
  "get_vendor_data_for_js st =
     (if vendors_df st = [] then []
      else map (vendor_dict (overlapping_vendor_codes st)) (vendors_df st))"

text \<open>\<^verbatim>\<open>filter_vendors_real_time\<close>: the list of dictionaries and the set of overlapping
  codes for the vendors that are not hidden.\<close>

definition filter_vendors_real_time ::
  "'g data_processor \<Rightarrow> string list \<Rightarrow> vendor_js list \<times> string set" where
  "filter_vendors_real_time st hidden_vendor_codes =
     (if hidden_vendor_codes = [] then (get_vendor_data_for_js st, overlapping_vendor_codes st)
      else
        (let visible_vendors =
               filter (\<lambda>v. vendor_code v \<notin> set hidden_vendor_codes) (vendors_df st);
             visible_overlapping =
               (if visible_vendors \<noteq> [] then calculate_overlaps_for_subset visible_vendors
                else {})
         in (map (vendor_dict visible_overlapping) visible_vendors, visible_overlapping)))"

section \<open>The request handlers of app.py\<close>

text \<open>\<^verbatim>\<open>calculate_overlaps_for_vendors\<close>: the approximate test on the client dictionaries,
  in metres.\<close>

definition js_distance_m :: "vendor_js \<Rightarrow> vendor_js \<Rightarrow> real" where
  "js_distance_m vendor1 vendor2 =
     sqrt ((js_latitude vendor1 - js_latitude vendor2)\<^sup>2
           + (js_longitude vendor1 - js_longitude vendor2)\<^sup>2) * 111000"

fun vendors_overlaps_inner :: "vendor_js \<Rightarrow> vendor_js list \<Rightarrow> string set \<Rightarrow> string set" where
  "vendors_overlaps_inner vendor1 [] overlapping = overlapping"
| "vendors_overlaps_inner vendor1 (vendor2 # rest) overlapping =
     vendors_overlaps_inner vendor1 rest
       (if js_distance_m vendor1 vendor2 < 6000
        then insert (js_vendor_code vendor2) (insert (js_vendor_code vendor1) overlapping)
        else overlapping)"

fun vendors_overlaps_outer :: "vendor_js list \<Rightarrow> string set \<Rightarrow> string set" where
  "vendors_overlaps_outer [] overlapping = overlapping"
| "vendors_overlaps_outer (vendor1 # rest) overlapping =
     vendors_overlaps_outer rest (vendors_overlaps_inner vendor1 rest overlapping)"

definition calculate_overlaps_for_vendors :: "vendor_js list \<Rightarrow> string set" where
  "calculate_overlaps_for_vendors vendors = vendors_overlaps_outer vendors {}"

text \<open>The statistics dictionary of the endpoint \<^verbatim>\<open>/api/filter_vendors\<close>.\<close>

record filter_statistics =
  fs_total_vendors :: nat
  fs_active_vendors :: nat
  fs_hidden_vendors :: nat
  fs_overlapping_vendors :: nat
  fs_overlap_rate :: real
  fs_avg_orders :: real
  fs_max_orders :: int

record filter_response =
  fr_visible_vendors :: "vendor_js list"
  fr_statistics :: filter_statistics
  fr_overlapping_vendors :: "string set"

text \<open>
  \<^verbatim>\<open>filter_vendors\<close>: the hidden codes of the request replace the global
  \<^verbatim>\<open>current_hidden_vendors\<close> (the second component of the result).
\<close>

definition filter_vendors ::
  "vendor_js list \<Rightarrow> string list \<Rightarrow> filter_response \<times> string set" where
  "filter_vendors original_vendor_data hidden_vendor_codes =
     (let current_hidden_vendors = set hidden_vendor_codes;
          visible_vendors =
            filter (\<lambda>v. js_vendor_code v \<notin> current_hidden_vendors) original_vendor_data;
          overlapping_visible = calculate_overlaps_for_vendors visible_vendors
      in (\<lparr>fr_visible_vendors = visible_vendors,
           fr_statistics =
             \<lparr>fs_total_vendors = length original_vendor_data,
              fs_active_vendors = length visible_vendors,
              fs_hidden_vendors = card current_hidden_vendors,
              fs_overlapping_vendors = card overlapping_visible,
              fs_overlap_rate =
                (if visible_vendors \<noteq> []
                 then real (card overlapping_visible) / real (length visible_vendors) * 100
                 else 0),
              fs_avg_orders =
                (if visible_vendors \<noteq> []
                 then real_of_int (sum_list (map js_total_order_count visible_vendors))
                      / real (length visible_vendors)
                 else 0),
              fs_max_orders =
                (if visible_vendors \<noteq> []
                 then Max (set (map js_total_order_count visible_vendors))
                 else 0)\<rparr>,
           fr_overlapping_vendors = overlapping_visible\<rparr>,
          current_hidden_vendors))"

section \<open>Ranking engine\<close>

text \<open>
  \<^verbatim>\<open>sorted(xs, key=..., reverse=True)\<close>. Python's sort is stable, also when reversed:
  CPython reverses the list, sorts it ascending with its stable merge sort and reverses
  the result, so elements with equal keys keep their original order.
\<close>

definition py_sorted_reverse :: "('a \<Rightarrow> real) \<Rightarrow> 'a list \<Rightarrow> 'a list" where
  "py_sorted_reverse key xs = rev (sort_key key (rev xs))"

text \<open>\<^verbatim>\<open>ranking_mapping\<close> of \<^verbatim>\<open>get_rankings\<close>, which is also \<^verbatim>\<open>config.RANKING_CRITERIA\<close>.\<close>

definition RANKING_CRITERIA :: "(string \<times> string) list" where
  "RANKING_CRITERIA =
     [(''Total Orders'', ''total_order_count''),
      (''Organic Orders'', ''organic_order_count''),
      (''Non-Organic Orders'', ''non_organic_order_count''),
      (''Organic/Non-Organic Ratio'', ''organic_to_non_organic_ratio''),
      (''Avg Daily Orders'', ''avg_daily_orders'')]"

definition ranking_mapping :: "(string \<times> string) list" where
  "ranking_mapping = RANKING_CRITERIA"

text \<open>\<^verbatim>\<open>x.get(ranking_column, 0)\<close> on a client dictionary, for the numeric keys a ranking
  column can name; 0 for a key the dictionary does not have.\<close>

definition dict_get :: "vendor_js \<Rightarrow> string \<Rightarrow> real" where
  "dict_get x k =
     (if k = ''total_order_count'' then real_of_int (js_total_order_count x)
      else if k = ''organic_order_count'' then real_of_int (js_organic_order_count x)
      else if k = ''non_organic_order_count'' then real_of_int (js_non_organic_order_count x)
      else if k = ''organic_to_non_organic_ratio'' then js_organic_to_non_organic_ratio x
      else if k = ''avg_daily_orders'' then js_avg_daily_orders x
      else 0)"

text \<open>The response of \<^verbatim>\<open>/api/rankings/<ranking_type>\<close>: the JSON body with its HTTP
  status, or the ranking.\<close>

datatype rankings_response =
    Rankings string "vendor_js list" nat
  | Error_response nat string

text \<open>\<^verbatim>\<open>for i, vendor in enumerate(sorted_vendors): vendor['rank'] = i + 1\<close>\<close>

definition add_rank_numbers :: "vendor_js list \<Rightarrow> vendor_js list" where
  "add_rank_numbers sorted_vendors =
     map (\<lambda>(i, vendor). vendor\<lparr>js_rank := Some (i + 1)\<rparr>) (enumerate 0 sorted_vendors)"

text \<open>
  \<^verbatim>\<open>get_rankings\<close>. The dictionaries it ranks are the ones of \<^verbatim>\<open>original_vendor_data\<close>,
  so a later request finds the key \<^verbatim>\<open>rank\<close> of an earlier one in them.
\<close>

definition get_rankings :: "vendor_js list \<Rightarrow> string set \<Rightarrow> string \<Rightarrow> rankings_response" where
  "get_rankings original_vendor_data current_hidden_vendors ranking_type =
     (let visible_vendors =
            filter (\<lambda>v. js_vendor_code v \<notin> current_hidden_vendors) original_vendor_data
      in case map_of ranking_mapping ranking_type of
           None \<Rightarrow> Error_response 400 (''Invalid ranking type: '' @ ranking_type)
         | Some ranking_column \<Rightarrow>
             if ranking_column = [] then
               Error_response 400 (''Invalid ranking type: '' @ ranking_type)
             else
               (let sorted_vendors =
                      py_sorted_reverse (\<lambda>x. dict_get x ranking_column) visible_vendors;
                    ranked = add_rank_numbers sorted_vendors
                in Rankings ranking_type ranked (length ranked)))"

text \<open>
  \<^verbatim>\<open>DataProcessor.get_ranking_data\<close>. The columns of the table are those of the row
  record; \<^verbatim>\<open>sort_values(by=..., ascending=False, na_position='last')\<close> is pandas code and
  a parameter of the model.
\<close>

definition df_columns :: "string list" where
  "df_columns =
     [''vendor_code'', ''vendor_name'', ''latitude'', ''longitude'', ''total_order_count'',
      ''organic_order_count'', ''non_organic_order_count'', ''organic_to_non_organic_ratio'',
      ''avg_daily_orders'', ''performance_score'', ''volume_category'']"

definition column_value :: "vendor \<Rightarrow> string \<Rightarrow> real option" where
  "column_value v k =
     (if k = ''total_order_count'' then Some (total_order_count v)
      else if k = ''organic_order_count'' then Some (organic_order_count v)
      else if k = ''non_organic_order_count'' then Some (non_organic_order_count v)
      else if k = ''organic_to_non_organic_ratio'' then organic_to_non_organic_ratio v
      else if k = ''avg_daily_orders'' then Some (avg_daily_orders v)
      else None)"

record ranking_entry =
  re_rank :: nat
  re_vendor_code :: string
  re_vendor_name :: string
  re_value :: real
  re_latitude :: real
  re_longitude :: real
  re_is_overlapping :: bool

definition get_ranking_data ::
  "((vendor \<Rightarrow> real option) \<Rightarrow> vendor list \<Rightarrow> vendor list) \<Rightarrow> 'g data_processor \<Rightarrow> string \<Rightarrow>
   string set \<Rightarrow> ranking_entry list" where
  "get_ranking_data sort_values st ranking_criterion hidden_vendors =
     (let visible_vendors =
            filter (\<lambda>v. vendor_code v \<notin> hidden_vendors) (vendors_df st)
      in case map_of RANKING_CRITERIA ranking_criterion of
           None \<Rightarrow> []
         | Some ranking_column \<Rightarrow>
             if ranking_column = [] \<or> ranking_column \<notin> set df_columns then []
             else
               map (\<lambda>(i, v).
                      \<lparr>re_rank = i + 1,
                       re_vendor_code = vendor_code v,
                       re_vendor_name = vendor_name v,
                       re_value = (case column_value v ranking_column of
                                     None \<Rightarrow> 0 | Some x \<Rightarrow> x),
                       re_latitude = latitude v,
                       re_longitude = longitude v,
                       re_is_overlapping = (vendor_code v \<in> overlapping_vendor_codes st)\<rparr>)
                   (enumerate 0 (sort_values (\<lambda>v. column_value v ranking_column)
                                             visible_vendors)))"

section \<open>The great-circle distance of the specification\<close>

text \<open>
  The Python engine computes no great-circle distance; only the page generated by
  \<^verbatim>\<open>old_version/main.py\<close> embeds the haversine formula, in JavaScript, with the radius
  6371000 m. The specification compares the approximate test with the haversine
  distance; this definition follows the specification's words (the haversine formula on
  a sphere of that radius), to be compared with the distance test of the source.
\<close>

definition earth_radius :: real where
  "earth_radius = 6371000"

definition radians :: "real \<Rightarrow> real" where
  "radians d = d * pi / 180"

definition haversine_spec :: "vendor \<Rightarrow> vendor \<Rightarrow> real" where
  "haversine_spec v1 v2 =
     (let phi1 = radians (latitude v1);
          phi2 = radians (latitude v2);
          dphi = radians (latitude v2 - latitude v1);
          dlambda = radians (longitude v2 - longitude v1);
          a = (sin (dphi / 2))\<^sup>2 + cos phi1 * cos phi2 * (sin (dlambda / 2))\<^sup>2
      in 2 * earth_radius * arcsin (sqrt a))"

section \<open>Auxiliary notions for stating the properties\<close>

text \<open>The codes of a pair of rows, and the codes that a list of pairs mentions.\<close>

definition pair_codes :: "vendor \<times> vendor \<Rightarrow> string \<times> string" where
  "pair_codes p = (vendor_code (fst p), vendor_code (snd p))"

definition codes_of_pairs :: "(vendor \<times> vendor) list \<Rightarrow> string set" where
  "codes_of_pairs ps = vendor_code ` (fst ` set ps \<union> snd ` set ps)"

definition js_codes_of_pairs :: "(vendor_js \<times> vendor_js) list \<Rightarrow> string set" where
  "js_codes_of_pairs ps = js_vendor_code ` (fst ` set ps \<union> snd ` set ps)"

text \<open>The planar-degree distance in metres, at 111000 m per degree.\<close>

definition planar_distance_m :: "vendor \<Rightarrow> vendor \<Rightarrow> real" where
  "planar_distance_m v1 v2 = degree_distance v1 v2 * 111000"

text \<open>Rows and client dictionaries for concrete instances: only the code, the
  coordinates and the two order metrics vary.\<close>

definition mk_vendor :: "string \<Rightarrow> real \<Rightarrow> real \<Rightarrow> real \<Rightarrow> real \<Rightarrow> vendor" where
  "mk_vendor c lat lon orders daily =
     \<lparr>vendor_code = c, vendor_name = c, latitude = lat, longitude = lon,
      total_order_count = orders, organic_order_count = 0, non_organic_order_count = 0,
      organic_to_non_organic_ratio = Some 0, avg_daily_orders = daily,
      performance_score = 0, volume_category = Low\<rparr>"

definition mk_vendor_js :: "string \<Rightarrow> real \<Rightarrow> real \<Rightarrow> int \<Rightarrow> vendor_js" where
  "mk_vendor_js c lat lon orders = vendor_dict {} (mk_vendor c lat lon (real_of_int orders) 0)"

text \<open>
  A table of three vendors: A and B are about 1.6 km apart by the planar-degree measure,
  C is far from both.
\<close>

definition example_df :: "vendor list" where
  "example_df =
     [mk_vendor ''A'' 35.70 51.40 100 10, mk_vendor ''B'' 35.71 51.41 50 5,
      mk_vendor ''C'' 35.90 51.90 20 2]"

definition example_store :: "vendor_js list" where
  "example_store =
     [mk_vendor_js ''A'' 35.70 51.40 100, mk_vendor_js ''B'' 35.71 51.41 50,
      mk_vendor_js ''C'' 35.90 51.90 20]"

text \<open>
  The score as the specification words it: each metric divided by its maximum over the
  corpus, 0 when that maximum is not positive, combined with the weights 0.6 and 0.4.
\<close>

definition normalized_spec :: "real list \<Rightarrow> real \<Rightarrow> real" where
  "normalized_spec xs x =
     (case series_max xs of None \<Rightarrow> 0 | Some m \<Rightarrow> if 0 < m then x / m else 0)"

definition performance_score_spec :: "vendor list \<Rightarrow> vendor \<Rightarrow> real" where
  "performance_score_spec corpus v =
     (0.6 * normalized_spec (map total_order_count corpus) (total_order_count v)
      + 0.4 * normalized_spec (map avg_daily_orders corpus) (avg_daily_orders v)) * 100"

text \<open>The example table with its derived columns, and the processor that
  \<^verbatim>\<open>load_data\<close> builds from it when exact mode finds the pairs \<open>flagged\<close>.\<close>

definition example_loaded_df :: "vendor list" where
  "example_loaded_df =
     [(mk_vendor ''A'' 35.70 51.40 100 10)\<lparr>performance_score := 100, volume_category := High\<rparr>,
      (mk_vendor ''B'' 35.71 51.41 50 5)\<lparr>performance_score := 50, volume_category := Medium\<rparr>,
      (mk_vendor ''C'' 35.90 51.90 20 2)\<lparr>performance_score := 20, volume_category := Low\<rparr>]"

definition example_processor :: "(vendor \<Rightarrow> vendor \<Rightarrow> bool) \<Rightarrow> unit data_processor" where
  "example_processor flagged =
     calculate_statistics
       (calculate_overlaps flagged (\<lambda>_ _. ()) (init_processor example_loaded_df))"

text \<open>A message mentions a name when the name is a contiguous part of it.\<close>

definition mentions :: "string \<Rightarrow> string \<Rightarrow> bool" where
  "mentions msg name =
     list_ex (\<lambda>i. take (length name) (drop i msg) = name) [0..<Suc (length msg)]"




text \<open>
  Two vendors on the parallel 35.7, 0.06 degrees of longitude apart, and a stand-in for the
  exact test on them: the distance in metres with about 110900 m per degree of latitude
  and about 90400 m per degree of longitude (the lengths at this latitude), compared with
  twice the service radius.
\<close>

definition example_parallel_df :: "vendor list" where
  "example_parallel_df =
     [mk_vendor ''E'' 35.7 51.40 100 10, mk_vendor ''F'' 35.7 51.46 50 5]"

definition example_exact_overlap :: "vendor \<Rightarrow> vendor \<Rightarrow> bool" where
  "example_exact_overlap v1 v2 \<longleftrightarrow>
     ((latitude v1 - latitude v2) * 110900)\<^sup>2 + ((longitude v1 - longitude v2) * 90400)\<^sup>2
       \<le> (2 * SERVICE_RADIUS)\<^sup>2"









section \<open>The overlap loops as filters over the pairs\<close>

lemma codes_of_pairs_append:
  "codes_of_pairs (xs @ ys) = codes_of_pairs xs \<union> codes_of_pairs ys"
  by (auto simp: codes_of_pairs_def)

lemma filter_map_Pair:
  "filter (\<lambda>(a, b). P a b) (map (Pair x) xs) = map (Pair x) (filter (P x) xs)"
  by (induction xs) auto

lemma simple_overlaps_inner_eq:
  "simple_overlaps_inner v1 rest (ov, ps) =
     (ov \<union> codes_of_pairs (map (Pair v1) (filter (simple_overlap v1) rest)),
      ps @ map pair_codes (map (Pair v1) (filter (simple_overlap v1) rest)))"
  by (induction rest arbitrary: ov ps)
     (auto simp: codes_of_pairs_def pair_codes_def simple_overlap_def)

lemma simple_overlaps_outer_eq:
  "simple_overlaps_outer vs (ov, ps) =
     (ov \<union> codes_of_pairs (filter (\<lambda>(a, b). simple_overlap a b) (combinations2 vs)),
      ps @ map pair_codes (filter (\<lambda>(a, b). simple_overlap a b) (combinations2 vs)))"
proof (induction vs arbitrary: ov ps)
  case Nil
  show ?case by (simp add: codes_of_pairs_def)
next
  case (Cons v vs)
  show ?case
    by (simp add: simple_overlaps_inner_eq Cons.IH filter_map_Pair codes_of_pairs_append
        Un_assoc)
qed

lemma exact_overlaps_loop_eq:
  "exact_overlaps_loop I G cs (ov, ps, gs) =
     (ov \<union> codes_of_pairs (filter (\<lambda>(a, b). I a b) cs),
      ps @ map pair_codes (filter (\<lambda>(a, b). I a b) cs),
      gs @ map (\<lambda>(a, b). G a b) (filter (\<lambda>(a, b). I a b) cs))"
proof (induction cs arbitrary: ov ps gs)
  case Nil
  show ?case by (simp add: codes_of_pairs_def)
next
  case (Cons c cs)
  obtain a b where c: "c = (a, b)" by (cases c)
  show ?case
    by (auto simp: c Cons.IH codes_of_pairs_def pair_codes_def)
qed

lemma subset_overlaps_inner_eq:
  "subset_overlaps_inner v1 rest ov =
     ov \<union> codes_of_pairs (map (Pair v1) (filter (simple_overlap v1) rest))"
  by (induction rest arbitrary: ov)
     (auto simp: codes_of_pairs_def simple_overlap_def)

lemma subset_overlaps_outer_eq:
  "subset_overlaps_outer vs ov =
     ov \<union> codes_of_pairs (filter (\<lambda>(a, b). simple_overlap a b) (combinations2 vs))"
proof (induction vs arbitrary: ov)
  case Nil
  show ?case by (simp add: codes_of_pairs_def)
next
  case (Cons v vs)
  show ?case
    by (simp add: subset_overlaps_inner_eq Cons.IH filter_map_Pair codes_of_pairs_append
        Un_assoc)
qed

lemma vendors_overlaps_inner_eq:
  "vendors_overlaps_inner v1 rest ov =
     ov \<union> js_codes_of_pairs (map (Pair v1) (filter (\<lambda>v2. js_distance_m v1 v2 < 6000) rest))"
  by (induction rest arbitrary: ov)
     (auto simp: js_codes_of_pairs_def)

lemma js_codes_of_pairs_append:
  "js_codes_of_pairs (xs @ ys) = js_codes_of_pairs xs \<union> js_codes_of_pairs ys"
  by (auto simp: js_codes_of_pairs_def)

lemma vendors_overlaps_outer_eq:
  "vendors_overlaps_outer vs ov =
     ov \<union> js_codes_of_pairs (filter (\<lambda>(a, b). js_distance_m a b < 6000) (combinations2 vs))"
proof (induction vs arbitrary: ov)
  case Nil
  show ?case by (simp add: js_codes_of_pairs_def)
next
  case (Cons v vs)
  show ?case
    by (simp add: vendors_overlaps_inner_eq Cons.IH filter_map_Pair js_codes_of_pairs_append
        Un_assoc)
qed

section \<open>All pairs of a list\<close>

lemma combinations2_set:
  "(a, b) \<in> set (combinations2 xs) \<longleftrightarrow>
     (\<exists>i j. i < j \<and> j < length xs \<and> xs ! i = a \<and> xs ! j = b)"
proof (induction xs)
  case Nil
  show ?case by simp
next
  case (Cons x xs)
  show ?case (is "?L = ?R")
  proof
    assume ?L
    then consider "a = x" "b \<in> set xs" | "(a, b) \<in> set (combinations2 xs)" by auto
    then show ?R
    proof cases
      case 1
      then obtain j where "j < length xs" "xs ! j = b" by (auto simp: in_set_conv_nth)
      then have "0 < Suc j \<and> Suc j < length (x # xs) \<and> (x # xs) ! 0 = a \<and> (x # xs) ! Suc j = b"
        using 1 by simp
      then show ?thesis by blast
    next
      case 2
      then obtain i j where "i < j" "j < length xs" "xs ! i = a" "xs ! j = b"
        using Cons.IH by blast
      then have "Suc i < Suc j \<and> Suc j < length (x # xs) \<and> (x # xs) ! Suc i = a \<and> (x # xs) ! Suc j = b"
        by simp
      then show ?thesis by blast
    qed
  next
    assume ?R
    then obtain i j where ij: "i < j" "j < length (x # xs)" "(x # xs) ! i = a" "(x # xs) ! j = b"
      by blast
    then obtain j' where j': "j = Suc j'" by (cases j) auto
    have b: "xs ! j' = b" "j' < length xs" using ij(2,4) j' by simp_all
    show ?L
    proof (cases i)
      case 0
      have "a = x" using ij(3) 0 by simp
      moreover have "b \<in> set xs" using b nth_mem by blast
      ultimately show ?thesis by simp
    next
      case (Suc i')
      then have "i' < j' \<and> j' < length xs \<and> xs ! i' = a \<and> xs ! j' = b"
        using ij(1,3) j' b by simp
      then have "(a, b) \<in> set (combinations2 xs)" using Cons.IH by blast
      then show ?thesis by simp
    qed
  qed
qed

lemma combinations2_subset: "(a, b) \<in> set (combinations2 xs) \<Longrightarrow> a \<in> set xs \<and> b \<in> set xs"
  by (induction xs) auto

lemma combinations2_map: "combinations2 (map f xs) = map (map_prod f f) (combinations2 xs)"
  by (induction xs) auto

lemma combinations2_distinct: "distinct xs \<Longrightarrow> distinct (combinations2 xs)"
proof (induction xs)
  case Nil
  show ?case by simp
next
  case (Cons x xs)
  have d1: "distinct (map (Pair x) xs)" using Cons.prems by (simp add: distinct_map inj_on_def)
  have "\<And>p. p \<in> set (combinations2 xs) \<Longrightarrow> fst p \<noteq> x"
  proof -
    fix p assume "p \<in> set (combinations2 xs)"
    then have "(fst p, snd p) \<in> set (combinations2 xs)" by simp
    then have "fst p \<in> set xs" using combinations2_subset [of "fst p" "snd p" xs] by simp
    then show "fst p \<noteq> x" using Cons.prems by auto
  qed
  then have d2: "set (map (Pair x) xs) \<inter> set (combinations2 xs) = {}" by fastforce
  have d3: "distinct (combinations2 xs)" using Cons by simp
  show ?case using d1 d2 d3 by simp
qed

lemma combinations2_asym:
  "distinct xs \<Longrightarrow> (a, b) \<in> set (combinations2 xs) \<Longrightarrow> (b, a) \<notin> set (combinations2 xs)"
proof
  assume d: "distinct xs" and ab: "(a, b) \<in> set (combinations2 xs)"
    and ba: "(b, a) \<in> set (combinations2 xs)"
  from ab have "\<exists>i j. i < j \<and> j < length xs \<and> xs ! i = a \<and> xs ! j = b"
    by (simp only: combinations2_set)
  then obtain i j where ij: "i < j" "j < length xs" "xs ! i = a" "xs ! j = b"
    by blast
  from ba have "\<exists>k l. k < l \<and> l < length xs \<and> xs ! k = b \<and> xs ! l = a"
    by (simp only: combinations2_set)
  then obtain k l where kl: "k < l" "l < length xs" "xs ! k = b" "xs ! l = a"
    by blast
  have il: "i < length xs" and kk: "k < length xs" using ij(1,2) kl(1,2) by simp_all
  have "xs ! j = xs ! k" using ij(4) kl(3) by simp
  then have jk: "j = k" using nth_eq_iff_index_eq [OF d ij(2) kk] by blast
  have "xs ! i = xs ! l" using ij(3) kl(4) by simp
  then have "i = l" using nth_eq_iff_index_eq [OF d il kl(2)] by blast
  then show False using jk ij(1) kl(1) by simp
qed

text \<open>What a list of recorded pairs satisfies when the codes of the table are unique.\<close>

lemma recorded_pairs_once:
  assumes d: "distinct (map vendor_code df)"
    and ps: "ps = map pair_codes (filter Q (combinations2 df))"
  shows "distinct ps"
    and "(a, b) \<in> set ps \<Longrightarrow> (b, a) \<notin> set ps"
    and "(a, b) \<in> set ps \<Longrightarrow>
          \<exists>i j. i < j \<and> j < length df \<and> vendor_code (df ! i) = a \<and> vendor_code (df ! j) = b"
proof -
  have pc: "pair_codes = map_prod vendor_code vendor_code"
    by (rule ext) (simp add: pair_codes_def map_prod_def split_beta)
  have cs: "map pair_codes (combinations2 df) = combinations2 (map vendor_code df)"
    by (simp add: pc combinations2_map)
  have dcs: "distinct (map pair_codes (combinations2 df))"
    using d cs combinations2_distinct by metis
  show "distinct ps" unfolding ps using dcs by (rule distinct_map_filter)
  have sub: "set ps \<subseteq> set (combinations2 (map vendor_code df))"
    unfolding ps cs [symmetric] by auto
  show "(a, b) \<in> set ps \<Longrightarrow> (b, a) \<notin> set ps"
    using sub combinations2_asym [OF d, of a b] by blast
  assume "(a, b) \<in> set ps"
  then have "(a, b) \<in> set (combinations2 (map vendor_code df))" using sub by blast
  then have "\<exists>i j. i < j \<and> j < length (map vendor_code df) \<and>
                 map vendor_code df ! i = a \<and> map vendor_code df ! j = b"
    by (simp only: combinations2_set)
  then obtain i j where "i < j" "j < length df" "map vendor_code df ! i = a"
    "map vendor_code df ! j = b" by auto
  then have "i < j \<and> j < length df \<and> vendor_code (df ! i) = a \<and> vendor_code (df ! j) = b"
    by simp
  then show "\<exists>i j. i < j \<and> j < length df \<and> vendor_code (df ! i) = a \<and> vendor_code (df ! j) = b"
    by blast
qed

section \<open>Evaluating the distance tests\<close>

lemma sqrt_less_iff_sq: "0 < t \<Longrightarrow> sqrt x < t \<longleftrightarrow> x < t\<^sup>2"
proof -
  assume t: "0 < t"
  have "sqrt x < sqrt (t\<^sup>2) \<longleftrightarrow> x < t\<^sup>2" by (rule real_sqrt_less_iff)
  then show ?thesis using t by simp
qed

lemma overlap_threshold_pos: "0 < overlap_threshold"
  by (simp add: overlap_threshold_def SERVICE_RADIUS_def)

lemma simple_overlap_iff:
  "simple_overlap v1 v2 \<longleftrightarrow>
     (latitude v1 - latitude v2)\<^sup>2 + (longitude v1 - longitude v2)\<^sup>2 < overlap_threshold\<^sup>2"
  unfolding simple_overlap_def degree_distance_def
  by (rule sqrt_less_iff_sq [OF overlap_threshold_pos])

lemma js_distance_m_less_iff:
  "js_distance_m v1 v2 < 6000 \<longleftrightarrow>
     (js_latitude v1 - js_latitude v2)\<^sup>2 + (js_longitude v1 - js_longitude v2)\<^sup>2
       < (6000 / 111000)\<^sup>2"
proof -
  have "js_distance_m v1 v2 < 6000 \<longleftrightarrow>
        sqrt ((js_latitude v1 - js_latitude v2)\<^sup>2 + (js_longitude v1 - js_longitude v2)\<^sup>2)
          < 6000 / 111000"
    unfolding js_distance_m_def by (simp add: field_simps)
  also have "\<dots> \<longleftrightarrow> (js_latitude v1 - js_latitude v2)\<^sup>2 + (js_longitude v1 - js_longitude v2)\<^sup>2
       < (6000 / 111000)\<^sup>2"
    by (rule sqrt_less_iff_sq) simp
  finally show ?thesis .
qed

section \<open>Each unordered pair is recorded once\<close>

lemma calculate_simple_overlaps_pairs:
  "overlap_pairs (calculate_simple_overlaps st) =
     map pair_codes (filter (\<lambda>(a, b). simple_overlap a b) (combinations2 (vendors_df st)))"
  by (simp add: calculate_simple_overlaps_def simple_overlaps_outer_eq)

lemma calculate_overlaps_pairs:
  "overlap_pairs (calculate_overlaps intersects intersection (init_processor df)) =
     (if length df > MAX_VENDORS_FOR_OVERLAP
      then map pair_codes (filter (\<lambda>(a, b). simple_overlap a b) (combinations2 df))
      else map pair_codes (filter (\<lambda>(a, b). intersects a b) (combinations2 df)))"
  by (cases "df = []")
     (simp_all add: calculate_overlaps_def calculate_simple_overlaps_pairs
        exact_overlaps_loop_eq init_processor_def MAX_VENDORS_FOR_OVERLAP_def)

text \<open>
  C9. In the initial pass over a table with unique vendor codes, by exact mode or by
  approximate mode, the list of recorded pairs has no repeated entry, never holds both
  \<open>(a, b)\<close> and \<open>(b, a)\<close>, and in every recorded pair \<open>(a, b)\<close> the row of \<open>a\<close> comes before
  the row of \<open>b\<close> in the table.
\<close>

theorem overlap_pairs_once:
  assumes "distinct (map vendor_code df)"
    and "ps = overlap_pairs (calculate_overlaps intersects intersection
                               (init_processor df :: 'g data_processor))
         \<or> ps = overlap_pairs (calculate_simple_overlaps
                                  (init_processor df :: 'g data_processor))"
  shows "distinct ps \<and>
         (\<forall>a b. (a, b) \<in> set ps \<longrightarrow>
            (b, a) \<notin> set ps \<and>
            (\<exists>i j. i < j \<and> j < length df \<and>
                   vendor_code (df ! i) = a \<and> vendor_code (df ! j) = b))"
proof -
  have "\<exists>Q. ps = map pair_codes (filter Q (combinations2 df))"
    using assms(2)
  proof
    assume "ps = overlap_pairs (calculate_overlaps intersects intersection (init_processor df))"
    then show ?thesis by (auto simp: calculate_overlaps_pairs)
  next
    assume "ps = overlap_pairs (calculate_simple_overlaps (init_processor df))"
    then have "ps = map pair_codes (filter (\<lambda>(a, b). simple_overlap a b) (combinations2 df))"
      by (simp add: calculate_simple_overlaps_pairs init_processor_def)
    then show ?thesis by blast
  qed
  then obtain Q where ps: "ps = map pair_codes (filter Q (combinations2 df))" by blast
  show ?thesis
    using recorded_pairs_once [OF assms(1) ps] by blast
qed

theorem overlap_pairs_once_witness:
  "distinct (map vendor_code
      [mk_vendor ''A'' 35.70 51.40 100 10, mk_vendor ''B'' 35.71 51.41 50 5,
       mk_vendor ''C'' 35.90 51.90 20 2])
   \<and> overlap_pairs (calculate_simple_overlaps (init_processor
        [mk_vendor ''A'' 35.70 51.40 100 10, mk_vendor ''B'' 35.71 51.41 50 5,
         mk_vendor ''C'' 35.90 51.90 20 2] :: unit data_processor)) = [(''A'', ''B'')]
   \<and> distinct (overlap_pairs (calculate_simple_overlaps (init_processor
        [mk_vendor ''A'' 35.70 51.40 100 10, mk_vendor ''B'' 35.71 51.41 50 5,
         mk_vendor ''C'' 35.90 51.90 20 2] :: unit data_processor)))
   \<and> (''B'', ''A'') \<notin> set (overlap_pairs (calculate_simple_overlaps (init_processor
        [mk_vendor ''A'' 35.70 51.40 100 10, mk_vendor ''B'' 35.71 51.41 50 5,
         mk_vendor ''C'' 35.90 51.90 20 2] :: unit data_processor)))"
proof -
  let ?df = "[mk_vendor ''A'' 35.70 51.40 100 10, mk_vendor ''B'' 35.71 51.41 50 5,
              mk_vendor ''C'' 35.90 51.90 20 2]"
  let ?ps = "overlap_pairs (calculate_simple_overlaps (init_processor ?df :: unit data_processor))"
  have d: "distinct (map vendor_code ?df)" by (simp add: mk_vendor_def)
  have e: "?ps = [(''A'', ''B'')]"
    by (simp add: calculate_simple_overlaps_pairs init_processor_def simple_overlap_iff
        pair_codes_def mk_vendor_def overlap_threshold_def SERVICE_RADIUS_def power2_eq_square)
  have "distinct ?ps \<and>
         (\<forall>a b. (a, b) \<in> set ?ps \<longrightarrow>
            (b, a) \<notin> set ?ps \<and>
            (\<exists>i j. i < j \<and> j < length ?df \<and>
                   vendor_code (?df ! i) = a \<and> vendor_code (?df ! j) = b))"
    by (rule overlap_pairs_once [OF d, where intersects = "\<lambda>_ _. True"
          and intersection = "\<lambda>_ _. ()"]) simp
  then have "distinct ?ps \<and> ((''A'', ''B'') \<in> set ?ps \<longrightarrow> (''B'', ''A'') \<notin> set ?ps)"
    by blast
  then show ?thesis using d e by simp
qed

section \<open>The overlap rate\<close>

lemma codes_of_pairs_subset:
  "codes_of_pairs (filter Q (combinations2 df)) \<subseteq> vendor_code ` set df"
proof
  fix c assume "c \<in> codes_of_pairs (filter Q (combinations2 df))"
  then obtain a b where ab: "(a, b) \<in> set (combinations2 df)" and c: "c = vendor_code a \<or> c = vendor_code b"
    by (auto simp: codes_of_pairs_def)
  have "a \<in> set df \<and> b \<in> set df" using ab by (rule combinations2_subset)
  then show "c \<in> vendor_code ` set df" using c by auto
qed

lemma js_codes_of_pairs_subset:
  "js_codes_of_pairs (filter Q (combinations2 vs)) \<subseteq> js_vendor_code ` set vs"
proof
  fix c assume "c \<in> js_codes_of_pairs (filter Q (combinations2 vs))"
  then obtain a b where ab: "(a, b) \<in> set (combinations2 vs)"
    and c: "c = js_vendor_code a \<or> c = js_vendor_code b"
    by (auto simp: js_codes_of_pairs_def)
  have "a \<in> set vs \<and> b \<in> set vs" using ab by (rule combinations2_subset)
  then show "c \<in> js_vendor_code ` set vs" using c by auto
qed

lemma card_image_set_le: "S \<subseteq> f ` set xs \<Longrightarrow> card S \<le> length xs"
proof -
  assume "S \<subseteq> f ` set xs"
  then have "card S \<le> card (f ` set xs)" by (simp add: card_mono)
  also have "\<dots> \<le> card (set xs)" by (simp add: card_image_le)
  also have "\<dots> \<le> length xs" by (rule card_length)
  finally show ?thesis .
qed

lemma combinations2_short: "length xs \<le> 1 \<Longrightarrow> combinations2 xs = []"
  by (cases xs) auto

lemma calculate_simple_overlaps_codes:
  "overlapping_vendor_codes (calculate_simple_overlaps st) =
     codes_of_pairs (filter (\<lambda>(a, b). simple_overlap a b) (combinations2 (vendors_df st)))"
  by (simp add: calculate_simple_overlaps_def simple_overlaps_outer_eq)

lemma calculate_overlaps_codes:
  "overlapping_vendor_codes (calculate_overlaps intersects intersection (init_processor df)) =
     (if length df > MAX_VENDORS_FOR_OVERLAP
      then codes_of_pairs (filter (\<lambda>(a, b). simple_overlap a b) (combinations2 df))
      else codes_of_pairs (filter (\<lambda>(a, b). intersects a b) (combinations2 df)))"
  by (cases "df = []")
     (simp_all add: calculate_overlaps_def calculate_simple_overlaps_codes
        exact_overlaps_loop_eq init_processor_def MAX_VENDORS_FOR_OVERLAP_def
        codes_of_pairs_def)

lemma calculate_overlaps_vendors_df:
  "vendors_df (calculate_overlaps intersects intersection st) = vendors_df st"
  by (simp add: calculate_overlaps_def calculate_simple_overlaps_def split: prod.splits)

lemma calculate_overlaps_for_vendors_eq:
  "calculate_overlaps_for_vendors vs =
     js_codes_of_pairs (filter (\<lambda>(a, b). js_distance_m a b < 6000) (combinations2 vs))"
  by (simp add: calculate_overlaps_for_vendors_def vendors_overlaps_outer_eq)

lemma rate_bounds:
  fixes k n :: nat
  assumes "k \<le> n" "0 < n"
  shows "0 \<le> real k / real n * 100" and "real k / real n * 100 \<le> 100"
proof -
  show "0 \<le> real k / real n * 100" by simp
  have "real k \<le> real n" using assms by simp
  then show "real k / real n * 100 \<le> 100" using assms by (simp add: field_simps)
qed

text \<open>The overlap statistics that \<^verbatim>\<open>load_data\<close> computes on a non-empty table.\<close>

lemma load_statistics:
  assumes "df \<noteq> []"
  shows "\<exists>s. vendor_statistics (calculate_statistics
                 (calculate_overlaps intersects intersection (init_processor df))) = Some s
             \<and> total_vendors s = length df
             \<and> overlapping_vendors s \<le> length df
             \<and> (length df \<le> 1 \<longrightarrow> overlapping_vendors s = 0)
             \<and> overlap_rate s = real (overlapping_vendors s) / real (total_vendors s) * 100"
proof -
  let ?st = "calculate_overlaps intersects intersection (init_processor df)"
  have df: "vendors_df ?st = df"
    by (simp add: calculate_overlaps_vendors_df init_processor_def)
  obtain Q where ov: "overlapping_vendor_codes ?st = codes_of_pairs (filter Q (combinations2 df))"
    using calculate_overlaps_codes [of intersects intersection df] by (cases "length df > MAX_VENDORS_FOR_OVERLAP") auto
  have le: "card (overlapping_vendor_codes ?st) \<le> length df"
    unfolding ov by (rule card_image_set_le [OF codes_of_pairs_subset])
  have one: "length df \<le> 1 \<longrightarrow> card (overlapping_vendor_codes ?st) = 0"
    unfolding ov by (simp add: combinations2_short codes_of_pairs_def)
  show ?thesis
    using assms le one by (simp add: calculate_statistics_def df Let_def)
qed

text \<open>
  C2, as the code has it. The overlap rate is the number of overlapping vendors divided by
  the number of vendors the statistics are computed on, times 100, and 0 when there is
  none; it lies between 0 and 100 and is 0 for at most one vendor. In the statistics of
  \<^verbatim>\<open>filter_vendors\<close> that number is \<^verbatim>\<open>active_vendors\<close> (its \<^verbatim>\<open>total_vendors\<close> counts the
  whole store); in \<^verbatim>\<open>_calculate_statistics\<close>, which computes statistics on a non-empty
  table only, it is \<^verbatim>\<open>total_vendors\<close>.
\<close>

theorem overlap_rate_of_visible_set:
  "(fs_overlap_rate (fr_statistics (fst (filter_vendors store hidden))) =
      (if fs_active_vendors (fr_statistics (fst (filter_vendors store hidden))) = 0 then 0
       else real (fs_overlapping_vendors (fr_statistics (fst (filter_vendors store hidden))))
            / real (fs_active_vendors (fr_statistics (fst (filter_vendors store hidden)))) * 100)
    \<and> 0 \<le> fs_overlap_rate (fr_statistics (fst (filter_vendors store hidden)))
    \<and> fs_overlap_rate (fr_statistics (fst (filter_vendors store hidden))) \<le> 100
    \<and> (fs_active_vendors (fr_statistics (fst (filter_vendors store hidden))) \<le> 1 \<longrightarrow>
         fs_overlap_rate (fr_statistics (fst (filter_vendors store hidden))) = 0))
   \<and> (df \<noteq> [] \<longrightarrow>
        (\<exists>s. vendor_statistics (calculate_statistics
                 (calculate_overlaps intersects intersection (init_processor df))) = Some s
             \<and> total_vendors s = length df
             \<and> overlap_rate s = real (overlapping_vendors s) / real (total_vendors s) * 100
             \<and> 0 \<le> overlap_rate s \<and> overlap_rate s \<le> 100
             \<and> (total_vendors s \<le> 1 \<longrightarrow> overlap_rate s = 0)))"
proof (intro conjI impI)
  let ?vis = "filter (\<lambda>v. js_vendor_code v \<notin> set hidden) store"
  let ?ov = "calculate_overlaps_for_vendors ?vis"
  let ?s = "fr_statistics (fst (filter_vendors store hidden))"
  have act: "fs_active_vendors ?s = length ?vis"
    and ovl: "fs_overlapping_vendors ?s = card ?ov"
    and rate: "fs_overlap_rate ?s =
                 (if ?vis \<noteq> [] then real (card ?ov) / real (length ?vis) * 100 else 0)"
    by (simp_all add: filter_vendors_def Let_def)
  have le: "card ?ov \<le> length ?vis"
    unfolding calculate_overlaps_for_vendors_eq
    by (rule card_image_set_le [OF js_codes_of_pairs_subset])
  show "fs_overlap_rate ?s =
      (if fs_active_vendors ?s = 0 then 0
       else real (fs_overlapping_vendors ?s) / real (fs_active_vendors ?s) * 100)"
    unfolding act ovl rate by simp
  show "0 \<le> fs_overlap_rate ?s" unfolding rate by simp
  show "fs_overlap_rate ?s \<le> 100"
  proof (cases "?vis = []")
    case True
    then show ?thesis unfolding rate by simp
  next
    case False
    then have "0 < length ?vis" by simp
    then show ?thesis unfolding rate using rate_bounds(2) [OF le] False by simp
  qed
  show "fs_overlap_rate ?s = 0" if "fs_active_vendors ?s \<le> 1"
  proof -
    have "length ?vis \<le> 1" using that act by simp
    then have "?ov = {}"
      unfolding calculate_overlaps_for_vendors_eq
      by (simp add: combinations2_short js_codes_of_pairs_def)
    then show ?thesis unfolding rate by simp
  qed
next
  assume ne: "df \<noteq> []"
  obtain s where s: "vendor_statistics (calculate_statistics
                 (calculate_overlaps intersects intersection (init_processor df))) = Some s"
    "total_vendors s = length df" "overlapping_vendors s \<le> length df"
    "length df \<le> 1 \<longrightarrow> overlapping_vendors s = 0"
    "overlap_rate s = real (overlapping_vendors s) / real (total_vendors s) * 100"
    using load_statistics [OF ne, of intersects intersection] by blast
  have pos: "0 < length df" using ne by simp
  have "0 \<le> overlap_rate s" "overlap_rate s \<le> 100"
    using rate_bounds [OF s(3) pos] s(2,5) by simp_all
  moreover have "total_vendors s \<le> 1 \<longrightarrow> overlap_rate s = 0" using s(2,4,5) by simp
  ultimately show "\<exists>s. vendor_statistics (calculate_statistics
                 (calculate_overlaps intersects intersection (init_processor df))) = Some s
             \<and> total_vendors s = length df
             \<and> overlap_rate s = real (overlapping_vendors s) / real (total_vendors s) * 100
             \<and> 0 \<le> overlap_rate s \<and> overlap_rate s \<le> 100
             \<and> (total_vendors s \<le> 1 \<longrightarrow> overlap_rate s = 0)"
    using s(1,2,5) by blast
qed

lemma example_store_hide_C:
  "filter (\<lambda>v. js_vendor_code v \<notin> set [''C'']) example_store =
     [mk_vendor_js ''A'' 35.70 51.40 100, mk_vendor_js ''B'' 35.71 51.41 50]"
  by (simp add: example_store_def mk_vendor_js_def vendor_dict_def mk_vendor_def)

lemma example_store_overlaps_AB:
  "calculate_overlaps_for_vendors
     [mk_vendor_js ''A'' 35.70 51.40 100, mk_vendor_js ''B'' 35.71 51.41 50] = {''A'', ''B''}"
  by (auto simp: calculate_overlaps_for_vendors_eq js_distance_m_less_iff js_codes_of_pairs_def
      mk_vendor_js_def vendor_dict_def mk_vendor_def power2_eq_square)

text \<open>
  With C hidden, \<^verbatim>\<open>filter_vendors\<close> reports \<^verbatim>\<open>total_vendors\<close> 3, \<^verbatim>\<open>overlapping_vendors\<close> 2
  and \<^verbatim>\<open>overlap_rate\<close> 100: the rate is not \<^verbatim>\<open>overlapping_vendors / total_vendors * 100\<close>.
\<close>

theorem overlap_rate_total_counterexample:
  "fs_total_vendors (fr_statistics (fst (filter_vendors example_store [''C'']))) = 3
   \<and> fs_overlapping_vendors (fr_statistics (fst (filter_vendors example_store [''C'']))) = 2
   \<and> fs_overlap_rate (fr_statistics (fst (filter_vendors example_store [''C'']))) = 100
   \<and> fs_overlap_rate (fr_statistics (fst (filter_vendors example_store [''C''])))
       \<noteq> real (fs_overlapping_vendors (fr_statistics (fst (filter_vendors example_store [''C'']))))
         / real (fs_total_vendors (fr_statistics (fst (filter_vendors example_store [''C''])))) * 100"
proof -
  have "length example_store = 3" by (simp add: example_store_def)
  then show ?thesis
    unfolding filter_vendors_def Let_def example_store_hide_C example_store_overlaps_AB
    by simp
qed

theorem overlap_rate_of_visible_set_witness:
  "fs_active_vendors (fr_statistics (fst (filter_vendors example_store [''B'', ''C'']))) \<le> 1
   \<and> fs_overlap_rate (fr_statistics (fst (filter_vendors example_store [''B'', ''C'']))) = 0
   \<and> [mk_vendor ''A'' 35.70 51.40 100 10] \<noteq> []
   \<and> (\<exists>s. vendor_statistics (calculate_statistics
             (calculate_overlaps (\<lambda>_ _. True) (\<lambda>_ _. ())
                (init_processor [mk_vendor ''A'' 35.70 51.40 100 10]))) = Some s
          \<and> total_vendors s = 1 \<and> overlap_rate s = 0)"
proof -
  have a: "fs_active_vendors (fr_statistics (fst (filter_vendors example_store [''B'', ''C''])))
             \<le> 1"
    by (simp add: filter_vendors_def Let_def example_store_def mk_vendor_js_def vendor_dict_def
        mk_vendor_def)
  have n: "[mk_vendor ''A'' 35.70 51.40 100 10] \<noteq> []" by simp
  note t = overlap_rate_of_visible_set [of example_store "[''B'', ''C'']"
      "[mk_vendor ''A'' 35.70 51.40 100 10]" "\<lambda>_ _. True" "\<lambda>_ _. ()"]
  have r: "fs_overlap_rate (fr_statistics (fst (filter_vendors example_store [''B'', ''C''])))
             = 0"
    using t a by blast
  obtain s where "vendor_statistics (calculate_statistics
             (calculate_overlaps (\<lambda>_ _. True) (\<lambda>_ _. ())
                (init_processor [mk_vendor ''A'' 35.70 51.40 100 10]))) = Some s"
    "total_vendors s = length [mk_vendor ''A'' 35.70 51.40 100 10]"
    "total_vendors s \<le> 1 \<longrightarrow> overlap_rate s = 0"
    using t n by blast
  then have "vendor_statistics (calculate_statistics
             (calculate_overlaps (\<lambda>_ _. True) (\<lambda>_ _. ())
                (init_processor [mk_vendor ''A'' 35.70 51.40 100 10]))) = Some s
          \<and> total_vendors s = 1 \<and> overlap_rate s = 0"
    by simp
  then show ?thesis using a r n by blast
qed

section \<open>A lower bound of pi\<close>

lemma sum_below_6:
  fixes f :: "nat \<Rightarrow> real"
  shows "(\<Sum>m<6. f m) = f 0 + f 1 + f 2 + f 3 + f 4 + f 5"
  by (simp add: eval_nat_numeral lessThan_Suc)

lemma sin_coeff_values:
  "sin_coeff (Suc 0) = 1" "sin_coeff 2 = 0" "sin_coeff 3 = - 1 / 6"
  "sin_coeff 4 = 0" "sin_coeff 5 = 1 / 120"
  by (simp_all add: sin_coeff_def fact_numeral)

lemma sin_upper_bound:
  fixes x :: real
  assumes "0 \<le> x"
  shows "sin x \<le> x - x^3 / 6 + x^5 / 120 + x^6 / 720"
proof -
  have "\<bar>sin x - (\<Sum>m<6. sin_coeff m * x ^ m)\<bar> \<le> inverse (fact 6) * \<bar>x\<bar> ^ 6"
    by (rule Maclaurin_sin_bound)
  moreover have "(\<Sum>m<6. sin_coeff m * x ^ m) = x - x^3 / 6 + x^5 / 120"
    by (simp add: sum_below_6 sin_coeff_values)
  moreover have "inverse (fact 6) * \<bar>x\<bar> ^ 6 = x^6 / 720"
  proof -
    have "(fact 6 :: real) = 720" by (simp add: fact_numeral)
    moreover have "\<bar>x\<bar> = x" using assms by simp
    ultimately show ?thesis by (simp add: field_simps)
  qed
  ultimately show ?thesis by linarith
qed

lemma pi_lower_bound: "3.1386 < pi"
proof -
  let ?x = "0.5231 :: real"
  have "sin ?x \<le> ?x - ?x^3 / 6 + ?x^5 / 120 + ?x^6 / 720"
    by (rule sin_upper_bound) simp
  also have "\<dots> < 1 / 2" by (simp add: power_def)
  finally have lt: "sin ?x < sin (pi / 6)" by (simp add: sin_30)
  have "?x < pi / 6"
  proof (rule ccontr)
    assume "\<not> ?x < pi / 6"
    then have le: "pi / 6 \<le> ?x" by simp
    have "?x \<le> pi / 2" using pi_ge_two by simp
    moreover have "- (pi / 2) \<le> pi / 6" using pi_gt_zero by simp
    ultimately have "sin (pi / 6) \<le> sin ?x" using le by (simp add: sin_mono_le_eq)
    then show False using lt by simp
  qed
  then show ?thesis by simp
qed

section \<open>Approximate mode and the great-circle distance\<close>

lemma simple_overlap_planar:
  "simple_overlap v1 v2 \<longleftrightarrow> planar_distance_m v1 v2 < 2 * SERVICE_RADIUS"
  by (simp add: simple_overlap_def planar_distance_m_def overlap_threshold_def
      SERVICE_RADIUS_def field_simps)

lemma calculate_overlaps_for_subset_eq:
  "calculate_overlaps_for_subset vs =
     codes_of_pairs (filter (\<lambda>(a, b). simple_overlap a b) (combinations2 vs))"
proof (cases "length vs < 2")
  case True
  then have "combinations2 vs = []" by (simp add: combinations2_short)
  then show ?thesis using True
    by (simp add: calculate_overlaps_for_subset_def codes_of_pairs_def)
next
  case False
  then show ?thesis
    by (simp add: calculate_overlaps_for_subset_def subset_overlaps_outer_eq)
qed

text \<open>On a meridian the haversine formula gives the arc of the latitude difference.\<close>

lemma haversine_spec_meridian:
  assumes "longitude v1 = longitude v2"
    and "latitude v1 \<le> latitude v2"
    and "latitude v2 - latitude v1 \<le> 180"
  shows "haversine_spec v1 v2 = earth_radius * radians (latitude v2 - latitude v1)"
proof -
  let ?h = "radians (latitude v2 - latitude v1) / 2"
  have h0: "0 \<le> ?h" using assms(2) by (simp add: radians_def)
  have "?h = (latitude v2 - latitude v1) * (pi / 360)" by (simp add: radians_def)
  also have "\<dots> \<le> 180 * (pi / 360)"
    using assms(3) by (intro mult_right_mono) simp_all
  finally have h1: "?h \<le> pi / 2" by simp
  have s0: "0 \<le> sin ?h" using h0 h1 by (intro sin_ge_zero) simp_all
  have "haversine_spec v1 v2 = 2 * earth_radius * arcsin (sqrt ((sin ?h)\<^sup>2))"
    using assms(1) by (simp add: haversine_spec_def Let_def radians_def)
  also have "sqrt ((sin ?h)\<^sup>2) = sin ?h" using s0 by simp
  also have "arcsin (sin ?h) = ?h" using h0 h1 by (intro arcsin_sin) simp_all
  finally show ?thesis by simp
qed

text \<open>
  C1, as the code has it. Every approximate-mode loop flags a pair of vendors exactly
  when their planar-degree distance, at 111000 m per degree, is less than \<open>2R\<close> with
  \<open>R\<close> = 3000 m: the recorded pairs and the overlapping codes of
  \<^verbatim>\<open>_calculate_simple_overlaps\<close>, and the overlapping codes of
  \<^verbatim>\<open>_calculate_overlaps_for_subset\<close> and of \<^verbatim>\<open>calculate_overlaps_for_vendors\<close>, are those
  of the pairs \<open>i < j\<close> that pass this test.
\<close>

theorem approximate_mode_planar_test:
  "SERVICE_RADIUS = 3000
   \<and> overlap_pairs (calculate_simple_overlaps st) =
       map pair_codes
         (filter (\<lambda>(a, b). planar_distance_m a b < 2 * SERVICE_RADIUS)
            (combinations2 (vendors_df st)))
   \<and> overlapping_vendor_codes (calculate_simple_overlaps st) =
       codes_of_pairs
         (filter (\<lambda>(a, b). planar_distance_m a b < 2 * SERVICE_RADIUS)
            (combinations2 (vendors_df st)))
   \<and> calculate_overlaps_for_subset vs =
       codes_of_pairs
         (filter (\<lambda>(a, b). planar_distance_m a b < 2 * SERVICE_RADIUS) (combinations2 vs))
   \<and> calculate_overlaps_for_vendors js =
       js_codes_of_pairs
         (filter (\<lambda>(a, b). js_distance_m a b < 2 * SERVICE_RADIUS) (combinations2 js))"
proof -
  have p: "(\<lambda>(a, b). simple_overlap a b) = (\<lambda>(a, b). planar_distance_m a b < 2 * SERVICE_RADIUS)"
    by (simp add: simple_overlap_planar)
  have "calculate_overlaps_for_vendors js =
       js_codes_of_pairs
         (filter (\<lambda>(a, b). js_distance_m a b < 2 * SERVICE_RADIUS) (combinations2 js))"
    by (simp add: calculate_overlaps_for_vendors_eq SERVICE_RADIUS_def)
  then show ?thesis
    using calculate_simple_overlaps_pairs [of st] calculate_simple_overlaps_codes [of st]
      calculate_overlaps_for_subset_eq [of vs]
    unfolding p by (simp add: SERVICE_RADIUS_def)
qed

text \<open>
  Two vendors on the meridian 51.4 at latitudes 35 and 35.05405: approximate mode records
  the pair (their planar-degree distance is 5999.55 m), and their haversine distance,
  about 6010 m, is not less than \<open>2R\<close>.
\<close>

theorem approximate_vs_haversine_counterexample:
  "simple_overlap (mk_vendor ''P'' 35 51.4 0 0) (mk_vendor ''Q'' 35.05405 51.4 0 0)
   \<and> overlap_pairs (calculate_simple_overlaps (init_processor
        [mk_vendor ''P'' 35 51.4 0 0, mk_vendor ''Q'' 35.05405 51.4 0 0]
          :: unit data_processor)) = [(''P'', ''Q'')]
   \<and> \<not> haversine_spec (mk_vendor ''P'' 35 51.4 0 0) (mk_vendor ''Q'' 35.05405 51.4 0 0)
         < 2 * SERVICE_RADIUS"
proof -
  let ?P = "mk_vendor ''P'' 35 51.4 0 0" and ?Q = "mk_vendor ''Q'' 35.05405 51.4 0 0"
  have flag: "simple_overlap ?P ?Q"
    by (simp add: simple_overlap_iff mk_vendor_def overlap_threshold_def SERVICE_RADIUS_def
        power2_eq_square)
  have pairs: "overlap_pairs (calculate_simple_overlaps (init_processor [?P, ?Q]
                 :: unit data_processor)) = [(''P'', ''Q'')]"
    using flag
    by (simp add: calculate_simple_overlaps_pairs init_processor_def pair_codes_def)
      (simp add: mk_vendor_def)
  have "haversine_spec ?P ?Q = earth_radius * radians (latitude ?Q - latitude ?P)"
    by (rule haversine_spec_meridian) (simp_all add: mk_vendor_def)
  also have "\<dots> = 6371000 * (0.05405 * pi / 180)"
    by (simp add: earth_radius_def radians_def mk_vendor_def)
  finally have h: "haversine_spec ?P ?Q = 6371000 * (0.05405 * pi / 180)" .
  have "6000 < 6371000 * (0.05405 * 3.1386 / 180 :: real)" by simp
  also have "\<dots> < 6371000 * (0.05405 * pi / 180)" using pi_lower_bound by simp
  finally have "\<not> haversine_spec ?P ?Q < 2 * SERVICE_RADIUS"
    unfolding h by (simp add: SERVICE_RADIUS_def)
  then show ?thesis using flag pairs by blast
qed

section \<open>Performance score\<close>

lemma normalize_by_max_cases:
  "normalize_by_max xs = Scalar 0 \<or>
   (\<exists>m. series_max xs = Some m \<and> 0 < m \<and> normalize_by_max xs = Series (map (\<lambda>x. x / m) xs))"
  by (auto simp: normalize_by_max_def split: option.splits)

lemma normalize_by_max_Scalar_iff:
  "(\<exists>x. normalize_by_max xs = Scalar x) \<longleftrightarrow> (xs = [] \<or> \<not> 0 < Max (set xs))"
  by (simp add: normalize_by_max_def series_max_def)

text \<open>The score is a number, and \<^verbatim>\<open>fillna\<close> fails, exactly when neither column has a
  positive maximum.\<close>

lemma calculate_performance_score_raises_iff:
  "calculate_performance_score df = Inl AttributeError \<longleftrightarrow>
     (\<exists>x. normalize_by_max (map total_order_count df) = Scalar x) \<and>
     (\<exists>y. normalize_by_max (map avg_daily_orders df) = Scalar y)"
  by (cases "normalize_by_max (map total_order_count df)";
      cases "normalize_by_max (map avg_daily_orders df)")
     (simp_all add: calculate_performance_score_def Let_def)

lemma calculate_performance_score_length:
  assumes "calculate_performance_score df = Inr s"
  shows "length s = length df"
proof -
  have t: "normalize_by_max (map total_order_count df) = Scalar 0 \<or>
           (\<exists>m. normalize_by_max (map total_order_count df)
                  = Series (map (\<lambda>x. x / m) (map total_order_count df)))"
    using normalize_by_max_cases [of "map total_order_count df"] by blast
  have d: "normalize_by_max (map avg_daily_orders df) = Scalar 0 \<or>
           (\<exists>m. normalize_by_max (map avg_daily_orders df)
                  = Series (map (\<lambda>x. x / m) (map avg_daily_orders df)))"
    using normalize_by_max_cases [of "map avg_daily_orders df"] by blast
  from t d assms show ?thesis
    by (auto simp: calculate_performance_score_def Let_def)
qed

text \<open>
  C7 at a corpus of one vendor without orders: both maxima are 0, both normalised
  columns are the number 0, the score is the number 0.0 and \<^verbatim>\<open>score.fillna(0)\<close> raises
  AttributeError instead of yielding the score 0.
\<close>

theorem performance_score_zero_corpus_raises:
  "calculate_performance_score [mk_vendor ''A'' 35.7 51.4 0 0] = Inl AttributeError
   \<and> add_performance_indicators [mk_vendor ''A'' 35.7 51.4 0 0] = Inl AttributeError"
  by (simp add: add_performance_indicators_def calculate_performance_score_def Let_def
      normalize_by_max_def series_max_def mk_vendor_def)

text \<open>Whenever the code returns a score column, it is the score of the specification.\<close>

lemma map2_plus_maps:
  "map2 (+) (map f xs) (map g xs) = map (\<lambda>x. f x + g x) xs"
  by (induction xs) auto

lemma normalize_by_max_spec_cases:
  obtains (series) m where "0 < m" "normalize_by_max xs = Series (map (\<lambda>x. x / m) xs)"
      "normalized_spec xs = (\<lambda>x. x / m)"
    | (scalar) "normalize_by_max xs = Scalar 0" "normalized_spec xs = (\<lambda>x. 0)"
proof (cases "series_max xs")
  case None
  then have "normalize_by_max xs = Scalar 0" "normalized_spec xs = (\<lambda>x. 0)"
    by (simp_all add: normalize_by_max_def normalized_spec_def fun_eq_iff)
  then show ?thesis by (rule scalar)
next
  case (Some m)
  show ?thesis
  proof (cases "0 < m")
    case True
    then have "normalize_by_max xs = Series (map (\<lambda>x. x / m) xs)"
      "normalized_spec xs = (\<lambda>x. x / m)"
      using Some by (simp_all add: normalize_by_max_def normalized_spec_def fun_eq_iff)
    with True show ?thesis by (rule series)
  next
    case False
    then have "normalize_by_max xs = Scalar 0" "normalized_spec xs = (\<lambda>x. 0)"
      using Some by (simp_all add: normalize_by_max_def normalized_spec_def fun_eq_iff)
    then show ?thesis by (rule scalar)
  qed
qed

lemma calculate_performance_score_spec:
  assumes "calculate_performance_score df = Inr s"
  shows "s = map (performance_score_spec df) df"
proof -
  let ?t = "map total_order_count df" and ?d = "map avg_daily_orders df"
  show ?thesis
  proof (cases rule: normalize_by_max_spec_cases [of ?t])
    case t: (series mt)
    show ?thesis
    proof (cases rule: normalize_by_max_spec_cases [of ?d])
      case d: (series md)
      have "s = map2 (+) (map (\<lambda>v. total_order_count v / mt * (3 / 5) * 100) df)
                         (map (\<lambda>v. avg_daily_orders v / md * (2 / 5) * 100) df)"
        using assms t(2) d(2)
        by (simp add: calculate_performance_score_def Let_def comp_def map2_map_map
            algebra_simps)
      moreover have "performance_score_spec df =
          (\<lambda>v. total_order_count v / mt * (3 / 5) * 100 + avg_daily_orders v / md * (2 / 5) * 100)"
        by (simp add: fun_eq_iff performance_score_spec_def t(3) d(3) algebra_simps)
      ultimately show ?thesis by (simp add: map2_plus_maps)
    next
      case d: scalar
      have "performance_score_spec df = (\<lambda>v. total_order_count v / mt * (3 / 5) * 100)"
        by (simp add: fun_eq_iff performance_score_spec_def t(3) d(2) algebra_simps)
      then show ?thesis using assms t(2) d(1)
        by (auto simp: calculate_performance_score_def Let_def comp_def algebra_simps)
    qed
  next
    case t: scalar
    show ?thesis
    proof (cases rule: normalize_by_max_spec_cases [of ?d])
      case d: (series md)
      have "performance_score_spec df = (\<lambda>v. avg_daily_orders v / md * (2 / 5) * 100)"
        by (simp add: fun_eq_iff performance_score_spec_def t(2) d(3) algebra_simps)
      then show ?thesis using assms t(1) d(2)
        by (auto simp: calculate_performance_score_def Let_def comp_def algebra_simps)
    next
      case d: scalar
      show ?thesis using assms t(1) d(1)
        by (simp add: calculate_performance_score_def Let_def)
    qed
  qed
qed

lemma normalized_spec_unit:
  assumes "x \<in> set xs" "0 \<le> x"
  shows "0 \<le> normalized_spec xs x \<and> normalized_spec xs x \<le> 1"
proof (cases "0 < Max (set xs)")
  case True
  have ne: "xs \<noteq> []" using assms(1) by auto
  have "x \<le> Max (set xs)" using assms(1) by simp
  then show ?thesis using True ne assms(2)
    by (simp add: normalized_spec_def series_max_def)
next
  case False
  then show ?thesis by (simp add: normalized_spec_def series_max_def)
qed

lemma performance_score_spec_range:
  assumes "v \<in> set corpus" "0 \<le> total_order_count v" "0 \<le> avg_daily_orders v"
  shows "0 \<le> performance_score_spec corpus v \<and> performance_score_spec corpus v \<le> 100"
proof -
  have t: "0 \<le> normalized_spec (map total_order_count corpus) (total_order_count v)
           \<and> normalized_spec (map total_order_count corpus) (total_order_count v) \<le> 1"
    using assms(1,2) by (intro normalized_spec_unit) simp_all
  have d: "0 \<le> normalized_spec (map avg_daily_orders corpus) (avg_daily_orders v)
           \<and> normalized_spec (map avg_daily_orders corpus) (avg_daily_orders v) \<le> 1"
    using assms(1,3) by (intro normalized_spec_unit) simp_all
  show ?thesis unfolding performance_score_spec_def using t d by simp
qed

section \<open>Quantiles and the volume category\<close>

lemma interpolation_mono:
  fixes s :: "real list"
  assumes srt: "sorted s" and p1: "0 \<le> p1" and le: "p1 \<le> p2"
    and p2: "p2 \<le> real (length s - 1)" and ne: "s \<noteq> []"
  shows "s ! nat \<lfloor>p1\<rfloor> + (s ! min (nat \<lfloor>p1\<rfloor> + 1) (length s - 1) - s ! nat \<lfloor>p1\<rfloor>)
            * (p1 - real (nat \<lfloor>p1\<rfloor>))
         \<le> s ! nat \<lfloor>p2\<rfloor> + (s ! min (nat \<lfloor>p2\<rfloor> + 1) (length s - 1) - s ! nat \<lfloor>p2\<rfloor>)
            * (p2 - real (nat \<lfloor>p2\<rfloor>))"
proof -
  let ?n = "length s"
  let ?l1 = "nat \<lfloor>p1\<rfloor>" and ?l2 = "nat \<lfloor>p2\<rfloor>"
  let ?h1 = "min (?l1 + 1) (?n - 1)" and ?h2 = "min (?l2 + 1) (?n - 1)"
  have n: "0 < ?n" using ne by simp
  have p2': "0 \<le> p2" using p1 le by simp
  have r1: "real ?l1 = of_int \<lfloor>p1\<rfloor>" using p1 by simp
  have r2: "real ?l2 = of_int \<lfloor>p2\<rfloor>" using p2' by simp
  have f1: "0 \<le> p1 - real ?l1" "p1 - real ?l1 \<le> 1" unfolding r1 by linarith+
  have f2: "0 \<le> p2 - real ?l2" "p2 - real ?l2 \<le> 1" unfolding r2 by linarith+
  have l12: "?l1 \<le> ?l2" using le by (simp add: floor_mono nat_mono)
  have "\<lfloor>p2\<rfloor> \<le> \<lfloor>real (?n - 1)\<rfloor>" using p2 by (rule floor_mono)
  then have l2n: "?l2 \<le> ?n - 1" by simp
  then have l2lt: "?l2 < ?n" using n by linarith
  have l1lt: "?l1 < ?n" using l12 l2lt by simp
  have "?n - 1 < ?n" using n by simp
  then have h1lt: "?h1 < ?n" and h2lt: "?h2 < ?n" by linarith+
  have d1: "s ! ?l1 \<le> s ! ?h1"
    using srt h1lt l1lt by (intro sorted_nth_mono) simp_all
  have d2: "s ! ?l2 \<le> s ! ?h2"
    using srt h2lt l2lt by (intro sorted_nth_mono) simp_all
  show ?thesis
  proof (cases "?l1 = ?l2")
    case True
    have "(s ! ?h2 - s ! ?l2) * (p1 - real ?l2) \<le> (s ! ?h2 - s ! ?l2) * (p2 - real ?l2)"
      using d2 le by (intro mult_left_mono) simp_all
    then show ?thesis using True by simp
  next
    case False
    then have lt: "?l1 + 1 \<le> ?l2" using l12 by simp
    have "(s ! ?h1 - s ! ?l1) * (p1 - real ?l1) \<le> (s ! ?h1 - s ! ?l1) * 1"
      using d1 f1(2) by (intro mult_left_mono) simp_all
    then have a: "s ! ?l1 + (s ! ?h1 - s ! ?l1) * (p1 - real ?l1) \<le> s ! ?h1" by simp
    have "?h1 \<le> ?l2" using lt by simp
    then have b: "s ! ?h1 \<le> s ! ?l2" using srt l2lt by (intro sorted_nth_mono) simp_all
    have "0 \<le> (s ! ?h2 - s ! ?l2) * (p2 - real ?l2)"
      using d2 f2(1) by (intro mult_nonneg_nonneg) simp_all
    then have c: "s ! ?l2 \<le> s ! ?l2 + (s ! ?h2 - s ! ?l2) * (p2 - real ?l2)" by simp
    show ?thesis using a b c by linarith
  qed
qed

lemma series_quantile_mono:
  assumes "xs \<noteq> []" "0 \<le> q1" "q1 \<le> q2" "q2 \<le> 1"
  shows "\<exists>a b. series_quantile q1 xs = Some a \<and> series_quantile q2 xs = Some b \<and> a \<le> b"
proof -
  let ?s = "sort xs"
  let ?m = "real (length xs - 1)"
  have "length ?s = length xs" by simp
  then have "?s \<noteq> []" using assms(1) by (metis length_0_conv)
  then have s: "sorted ?s" "?s \<noteq> []" "length ?s = length xs" by simp_all
  have m: "0 \<le> ?m" by simp
  have "0 \<le> q1 * ?m" using assms(2) m by (rule mult_nonneg_nonneg)
  moreover have "q1 * ?m \<le> q2 * ?m" using assms(3) m by (rule mult_right_mono)
  moreover have "q2 * ?m \<le> 1 * ?m" using assms(4) m by (rule mult_right_mono)
  then have "q2 * ?m \<le> real (length ?s - 1)" by simp
  ultimately have "?s ! nat \<lfloor>q1 * ?m\<rfloor>
       + (?s ! min (nat \<lfloor>q1 * ?m\<rfloor> + 1) (length ?s - 1) - ?s ! nat \<lfloor>q1 * ?m\<rfloor>)
            * (q1 * ?m - real (nat \<lfloor>q1 * ?m\<rfloor>))
      \<le> ?s ! nat \<lfloor>q2 * ?m\<rfloor>
       + (?s ! min (nat \<lfloor>q2 * ?m\<rfloor> + 1) (length ?s - 1) - ?s ! nat \<lfloor>q2 * ?m\<rfloor>)
            * (q2 * ?m - real (nat \<lfloor>q2 * ?m\<rfloor>))"
    using s(1,2) by (intro interpolation_mono)
  then show ?thesis using assms(1) by (simp add: series_quantile_def Let_def)
qed

lemma categorize_volume_nth:
  "i < length df \<Longrightarrow>
   categorize_volume df ! i =
     categorize (series_quantile 0.75 (map total_order_count df))
       (series_quantile 0.25 (map total_order_count df)) (total_order_count (df ! i))"
  by (simp add: categorize_volume_def Let_def)

text \<open>
  C8. On a non-empty corpus the two thresholds are the linear-interpolation quantiles
  0.75 and 0.25 of \<^verbatim>\<open>total_order_count\<close>, the lower one is at most the upper one, and a
  vendor is High exactly when its count is at least the upper threshold, Medium exactly
  when it is at least the lower and below the upper one, Low exactly when it is below
  the lower one; a count on a threshold falls in the higher category.
\<close>

theorem volume_category_by_quartiles:
  assumes "df \<noteq> []"
  shows "\<exists>p75 p25.
           series_quantile 0.75 (map total_order_count df) = Some p75
         \<and> series_quantile 0.25 (map total_order_count df) = Some p25
         \<and> p25 \<le> p75
         \<and> length (categorize_volume df) = length df
         \<and> (\<forall>i < length df.
              (categorize_volume df ! i = High \<longleftrightarrow> p75 \<le> total_order_count (df ! i))
            \<and> (categorize_volume df ! i = Medium \<longleftrightarrow>
                 p25 \<le> total_order_count (df ! i) \<and> total_order_count (df ! i) < p75)
            \<and> (categorize_volume df ! i = Low \<longleftrightarrow> total_order_count (df ! i) < p25))"
proof -
  have "map total_order_count df \<noteq> []" using assms by simp
  then obtain p25 p75 where q: "series_quantile 0.25 (map total_order_count df) = Some p25"
    "series_quantile 0.75 (map total_order_count df) = Some p75" "p25 \<le> p75"
    using series_quantile_mono [of "map total_order_count df" "0.25" "0.75"] by auto
  have len: "length (categorize_volume df) = length df"
    by (simp add: categorize_volume_def Let_def)
  have nth: "categorize_volume df ! i =
               categorize (Some p75) (Some p25) (total_order_count (df ! i))"
    if "i < length df" for i
    unfolding q(1,2) [symmetric] using that by (rule categorize_volume_nth)
  have "\<forall>i < length df.
              (categorize_volume df ! i = High \<longleftrightarrow> p75 \<le> total_order_count (df ! i))
            \<and> (categorize_volume df ! i = Medium \<longleftrightarrow>
                 p25 \<le> total_order_count (df ! i) \<and> total_order_count (df ! i) < p75)
            \<and> (categorize_volume df ! i = Low \<longleftrightarrow> total_order_count (df ! i) < p25)"
    using q(3) by (auto simp: nth categorize_def)
  then show ?thesis using q len by blast
qed

theorem volume_category_by_quartiles_witness:
  "example_df \<noteq> []
   \<and> series_quantile 0.75 (map total_order_count example_df) = Some 75
   \<and> series_quantile 0.25 (map total_order_count example_df) = Some 35
   \<and> categorize_volume example_df = [High, Medium, Low]
   \<and> (\<exists>p75 p25.
           series_quantile 0.75 (map total_order_count example_df) = Some p75
         \<and> series_quantile 0.25 (map total_order_count example_df) = Some p25
         \<and> p25 \<le> p75
         \<and> (categorize_volume example_df ! 1 = Medium \<longleftrightarrow>
                 p25 \<le> total_order_count (example_df ! 1)
               \<and> total_order_count (example_df ! 1) < p75))"
proof -
  have ne: "example_df \<noteq> []" by (simp add: example_df_def)
  have l: "(1::nat) < length example_df" by (simp add: example_df_def)
  have q: "series_quantile 0.75 (map total_order_count example_df) = Some 75"
    "series_quantile 0.25 (map total_order_count example_df) = Some 35"
    by (simp_all add: series_quantile_def Let_def example_df_def mk_vendor_def)
  have c: "categorize_volume example_df = [High, Medium, Low]"
    unfolding categorize_volume_def Let_def q
    by (simp add: categorize_def example_df_def mk_vendor_def)
  show ?thesis
    using volume_category_by_quartiles [OF ne] l ne q c by blast
qed

section \<open>Derived columns under filtering\<close>

lemma calculate_statistics_fields:
  "vendors_df (calculate_statistics st) = vendors_df st"
  "overlapping_vendor_codes (calculate_statistics st) = overlapping_vendor_codes st"
  "overlap_pairs (calculate_statistics st) = overlap_pairs st"
  by (simp_all add: calculate_statistics_def Let_def)

lemma categorize_volume_cong:
  "map total_order_count df1 = map total_order_count df2 \<Longrightarrow>
   categorize_volume df1 = categorize_volume df2"
  by (simp add: categorize_volume_def)

lemma map2_score_total:
  "length ys = length xs \<Longrightarrow>
   map total_order_count (map2 (\<lambda>v s. v\<lparr>performance_score := s\<rparr>) xs ys)
     = map total_order_count xs"
  by (induction xs ys rule: list_induct2') auto

lemma map2_score_score:
  "length ys = length xs \<Longrightarrow>
   map performance_score (map2 (\<lambda>v s. v\<lparr>performance_score := s\<rparr>) xs ys) = ys"
  by (induction xs ys rule: list_induct2') auto

lemma map2_category_score:
  "length cs = length xs \<Longrightarrow>
   map performance_score (map2 (\<lambda>v c. v\<lparr>volume_category := c\<rparr>) xs cs)
     = map performance_score xs"
  by (induction xs cs rule: list_induct2') auto

lemma map2_category_category:
  "length cs = length xs \<Longrightarrow>
   map volume_category (map2 (\<lambda>v c. v\<lparr>volume_category := c\<rparr>) xs cs) = cs"
  by (induction xs cs rule: list_induct2') auto

text \<open>The derived columns that ingestion stores are those of the whole ingested table.\<close>

lemma add_performance_indicators_columns:
  assumes "add_performance_indicators merged = Inr df"
  shows "calculate_performance_score merged = Inr (map performance_score df)"
    and "map volume_category df = categorize_volume merged"
    and "length df = length merged"
proof -
  obtain score where sc: "calculate_performance_score merged = Inr score"
    using assms by (auto simp: add_performance_indicators_def split: sum.splits)
  have len: "length score = length merged" using sc by (rule calculate_performance_score_length)
  let ?df1 = "map2 (\<lambda>v s. v\<lparr>performance_score := s\<rparr>) merged score"
  have df: "df = map2 (\<lambda>v c. v\<lparr>volume_category := c\<rparr>) ?df1 (categorize_volume ?df1)"
    using assms sc by (simp add: add_performance_indicators_def Let_def)
  have cv: "categorize_volume ?df1 = categorize_volume merged"
    by (rule categorize_volume_cong) (rule map2_score_total [OF len])
  have l1: "length ?df1 = length merged" using len by simp
  have lc: "length (categorize_volume merged) = length merged"
    by (simp add: categorize_volume_def)
  have lc1: "length (categorize_volume merged) = length ?df1" using l1 lc by simp
  have "map performance_score df = map performance_score ?df1"
    unfolding df cv by (rule map2_category_score [OF lc1])
  also have "\<dots> = score" by (rule map2_score_score [OF len])
  finally show "calculate_performance_score merged = Inr (map performance_score df)"
    using sc by simp
  show "map volume_category df = categorize_volume merged"
    unfolding df cv by (rule map2_category_category [OF lc1])
  show "length df = length merged" unfolding df cv using l1 lc by simp
qed

lemma filter_vendors_real_time_dicts:
  "fst (filter_vendors_real_time st hidden) =
     map (vendor_dict (snd (filter_vendors_real_time st hidden)))
       (filter (\<lambda>v. vendor_code v \<notin> set hidden) (vendors_df st))"
  by (simp add: filter_vendors_real_time_def get_vendor_data_for_js_def Let_def)

text \<open>
  C3, as the code has it. \<^verbatim>\<open>performance_score\<close> and \<^verbatim>\<open>volume_category\<close> are computed once,
  by \<^verbatim>\<open>_process_vendor_data\<close> over the whole ingested table; filtering returns for every
  visible vendor the values stored then, whatever the hidden set.
\<close>

theorem filtering_keeps_ingestion_scores:
  assumes "load_data intersects intersection merged = Inr (Some st)"
  shows "calculate_performance_score merged = Inr (map performance_score (vendors_df st))
       \<and> map volume_category (vendors_df st) = categorize_volume merged
       \<and> map js_performance_score (fst (filter_vendors_real_time st hidden)) =
           map performance_score (filter (\<lambda>v. vendor_code v \<notin> set hidden) (vendors_df st))
       \<and> map js_volume_category (fst (filter_vendors_real_time st hidden)) =
           map volume_category (filter (\<lambda>v. vendor_code v \<notin> set hidden) (vendors_df st))"
proof -
  obtain df where df: "add_performance_indicators merged = Inr df"
    and st: "st = calculate_statistics
                    (calculate_overlaps intersects intersection (init_processor df))"
    using assms by (auto simp: load_data_def split: sum.splits if_splits)
  have v: "vendors_df st = df"
    unfolding st by (simp add: calculate_statistics_fields calculate_overlaps_vendors_df
        init_processor_def)
  show ?thesis
    using add_performance_indicators_columns(1,2) [OF df]
    by (simp add: v filter_vendors_real_time_dicts vendor_dict_def comp_def)
qed

lemma example_scores:
  "calculate_performance_score example_df = Inr [100, 50, 20]"
  by (simp add: calculate_performance_score_def example_df_def mk_vendor_def
      normalize_by_max_def series_max_def Let_def)

lemma example_quantiles:
  "series_quantile 0.75 [100, 50, 20] = Some 75"
  "series_quantile 0.25 [100, 50, 20] = Some 35"
  "series_quantile 0.75 [50, 20] = Some 42.5"
  "series_quantile 0.25 [50, 20] = Some 27.5"
  by (simp_all add: series_quantile_def Let_def)

lemma example_add_performance_indicators:
  "add_performance_indicators example_df = Inr example_loaded_df"
proof -
  let ?df1 = "map2 (\<lambda>v s. v\<lparr>performance_score := s\<rparr>) example_df [100, 50, 20]"
  have t: "map total_order_count ?df1 = [100, 50, 20]"
    by (simp add: example_df_def mk_vendor_def)
  have c: "categorize_volume ?df1 = [High, Medium, Low]"
    unfolding categorize_volume_def Let_def t example_quantiles
    by (simp add: categorize_def)
  show ?thesis
    unfolding add_performance_indicators_def example_scores sum.case Let_def c
    by (simp add: example_df_def example_loaded_df_def mk_vendor_def)
qed

lemma example_load_data:
  "load_data flagged (\<lambda>_ _. ()) example_df = Inr (Some (example_processor flagged))"
  unfolding load_data_def example_add_performance_indicators sum.case
  by (simp add: example_processor_def example_loaded_df_def)

lemma example_processor_df: "vendors_df (example_processor flagged) = example_loaded_df"
  by (simp add: example_processor_def calculate_statistics_fields
      calculate_overlaps_vendors_df init_processor_def)

lemma example_hide_A:
  "filter (\<lambda>v. vendor_code v \<notin> set [''A'']) example_loaded_df =
     [(mk_vendor ''B'' 35.71 51.41 50 5)\<lparr>performance_score := 50, volume_category := Medium\<rparr>,
      (mk_vendor ''C'' 35.90 51.90 20 2)\<lparr>performance_score := 20, volume_category := Low\<rparr>]"
  by (simp add: example_loaded_df_def mk_vendor_def)

text \<open>
  With A hidden, B and C keep the scores 50 and 20 and the categories Medium and Low of
  the full table; relative to the visible corpus of B and C the scores are 100 and 40
  and the categories High and Low.
\<close>

theorem filtering_recomputes_scores_counterexample:
  "load_data simple_overlap (\<lambda>_ _. ()) example_df = Inr (Some (example_processor simple_overlap))
   \<and> map js_performance_score
        (fst (filter_vendors_real_time (example_processor simple_overlap) [''A''])) = [50, 20]
   \<and> calculate_performance_score
        (filter (\<lambda>v. vendor_code v \<notin> set [''A'']) example_loaded_df) = Inr [100, 40]
   \<and> map js_volume_category
        (fst (filter_vendors_real_time (example_processor simple_overlap) [''A''])) = [Medium, Low]
   \<and> categorize_volume
        (filter (\<lambda>v. vendor_code v \<notin> set [''A'']) example_loaded_df) = [High, Low]"
proof -
  let ?vis = "filter (\<lambda>v. vendor_code v \<notin> set [''A'']) example_loaded_df"
  have d: "fst (filter_vendors_real_time (example_processor simple_overlap) [''A'']) =
             map (vendor_dict (snd (filter_vendors_real_time (example_processor simple_overlap)
                                      [''A''])))
                 ?vis"
    unfolding filter_vendors_real_time_dicts example_processor_df ..
  have s: "map js_performance_score
        (fst (filter_vendors_real_time (example_processor simple_overlap) [''A''])) = [50, 20]"
    unfolding d example_hide_A by (simp add: vendor_dict_def)
  have c: "map js_volume_category
        (fst (filter_vendors_real_time (example_processor simple_overlap) [''A'']))
          = [Medium, Low]"
    unfolding d example_hide_A by (simp add: vendor_dict_def)
  have s': "calculate_performance_score ?vis = Inr [100, 40]"
    unfolding example_hide_A
    by (simp add: calculate_performance_score_def mk_vendor_def
      normalize_by_max_def series_max_def Let_def)
  have t: "map total_order_count ?vis = [50, 20]"
    unfolding example_hide_A by (simp add: mk_vendor_def)
  have c': "categorize_volume ?vis = [High, Low]"
    unfolding categorize_volume_def Let_def t example_quantiles by (simp add: categorize_def)
  show ?thesis using example_load_data [of simple_overlap] s c s' c' by blast
qed

theorem filtering_keeps_ingestion_scores_witness:
  "load_data simple_overlap (\<lambda>_ _. ()) example_df = Inr (Some (example_processor simple_overlap))
   \<and> calculate_performance_score example_df
       = Inr (map performance_score (vendors_df (example_processor simple_overlap)))
   \<and> map js_performance_score
        (fst (filter_vendors_real_time (example_processor simple_overlap) [''A''])) = [50, 20]
   \<and> map js_volume_category
        (fst (filter_vendors_real_time (example_processor simple_overlap) [''A''])) = [Medium, Low]"
proof -
  note t = filtering_keeps_ingestion_scores [OF example_load_data [of simple_overlap],
      of "[''A'']"]
  have "map performance_score
          (filter (\<lambda>v. vendor_code v \<notin> set [''A''])
             (vendors_df (example_processor simple_overlap))) = [50, 20]"
    unfolding example_processor_df example_hide_A by simp
  moreover have "map volume_category
          (filter (\<lambda>v. vendor_code v \<notin> set [''A''])
             (vendors_df (example_processor simple_overlap))) = [Medium, Low]"
    unfolding example_processor_df example_hide_A by simp
  ultimately show ?thesis using t example_load_data [of simple_overlap] by simp
qed

section \<open>Statistics of an empty or single-vendor corpus\<close>

lemma column_stats_single:
  "column_stats [x] =
     \<lparr>stat_mean = Some x, stat_median = Some x, stat_std = None, stat_max = Some x,
      stat_min = Some x, stat_sum = x\<rparr>"
  by (simp add: column_stats_def series_mean_def series_median_def series_std_def
      series_max_def series_min_def series_sum_def Let_def)

lemma calculate_overlaps_single:
  "calculate_overlaps intersects intersection (init_processor [v]) = init_processor [v]"
  by (simp add: calculate_overlaps_def init_processor_def MAX_VENDORS_FOR_OVERLAP_def)

lemma calculate_statistics_density:
  assumes "vendors_df st \<noteq> []"
  shows "\<exists>s. vendor_statistics (calculate_statistics st) = Some s \<and>
             vendor_density s =
               (let area_km2 = (Max (set (map latitude (vendors_df st)))
                                  - Min (set (map latitude (vendors_df st))))
                               * (Max (set (map longitude (vendors_df st)))
                                  - Min (set (map longitude (vendors_df st))))
                               * 111000 * 111000 / 1000000
                in if 0 < area_km2 then real (length (vendors_df st)) / area_km2 else 0)"
  using assms
  by (simp add: calculate_statistics_def Let_def series_max_def series_min_def)

text \<open>
  C6, as the code has it. Over an empty visible corpus \<^verbatim>\<open>filter_vendors\<close> returns an empty
  overlap set and the rate, the average and the maximum 0, and \<^verbatim>\<open>_calculate_statistics\<close>
  returns without computing anything. Over a single vendor the overlap set is empty,
  the rate and the density are 0, and the mean, median, maximum, minimum and sum of each
  metric are that vendor's value. The density is 0 whenever the bounding rectangle has
  no area.
\<close>

theorem small_corpus_statistics:
  "(filter (\<lambda>v. js_vendor_code v \<notin> set hidden) store = [] \<longrightarrow>
      fr_overlapping_vendors (fst (filter_vendors store hidden)) = {}
    \<and> fs_overlap_rate (fr_statistics (fst (filter_vendors store hidden))) = 0
    \<and> fs_avg_orders (fr_statistics (fst (filter_vendors store hidden))) = 0
    \<and> fs_max_orders (fr_statistics (fst (filter_vendors store hidden))) = 0)
   \<and> (filter (\<lambda>v. js_vendor_code v \<notin> set hidden) store = [w] \<longrightarrow>
      fr_overlapping_vendors (fst (filter_vendors store hidden)) = {}
    \<and> fs_overlap_rate (fr_statistics (fst (filter_vendors store hidden))) = 0
    \<and> fs_avg_orders (fr_statistics (fst (filter_vendors store hidden)))
        = real_of_int (js_total_order_count w)
    \<and> fs_max_orders (fr_statistics (fst (filter_vendors store hidden)))
        = js_total_order_count w)
   \<and> (vendors_df st = [] \<longrightarrow> calculate_statistics st = st)
   \<and> (\<exists>s. vendor_statistics (calculate_statistics
               (calculate_overlaps intersects intersection (init_processor [v]))) = Some s
          \<and> total_vendors s = 1 \<and> overlapping_vendors s = 0 \<and> overlap_rate s = 0
          \<and> vendor_density s = 0
          \<and> stat_mean (total_order_count_stats s) = Some (total_order_count v)
          \<and> stat_median (total_order_count_stats s) = Some (total_order_count v)
          \<and> stat_max (total_order_count_stats s) = Some (total_order_count v)
          \<and> stat_min (total_order_count_stats s) = Some (total_order_count v)
          \<and> stat_sum (total_order_count_stats s) = total_order_count v
          \<and> stat_mean (organic_order_count_stats s) = Some (organic_order_count v)
          \<and> stat_median (organic_order_count_stats s) = Some (organic_order_count v)
          \<and> stat_max (organic_order_count_stats s) = Some (organic_order_count v)
          \<and> stat_min (organic_order_count_stats s) = Some (organic_order_count v)
          \<and> stat_sum (organic_order_count_stats s) = organic_order_count v
          \<and> stat_mean (non_organic_order_count_stats s) = Some (non_organic_order_count v)
          \<and> stat_median (non_organic_order_count_stats s) = Some (non_organic_order_count v)
          \<and> stat_max (non_organic_order_count_stats s) = Some (non_organic_order_count v)
          \<and> stat_min (non_organic_order_count_stats s) = Some (non_organic_order_count v)
          \<and> stat_sum (non_organic_order_count_stats s) = non_organic_order_count v
          \<and> stat_mean (avg_daily_orders_stats s) = Some (avg_daily_orders v)
          \<and> stat_median (avg_daily_orders_stats s) = Some (avg_daily_orders v)
          \<and> stat_max (avg_daily_orders_stats s) = Some (avg_daily_orders v)
          \<and> stat_min (avg_daily_orders_stats s) = Some (avg_daily_orders v)
          \<and> stat_sum (avg_daily_orders_stats s) = avg_daily_orders v)
   \<and> (vendors_df st \<noteq> [] \<and>
        (Max (set (map latitude (vendors_df st))) = Min (set (map latitude (vendors_df st)))
         \<or> Max (set (map longitude (vendors_df st))) = Min (set (map longitude (vendors_df st))))
        \<longrightarrow> (\<exists>s. vendor_statistics (calculate_statistics st) = Some s \<and> vendor_density s = 0))"
proof (intro conjI impI)
  assume e: "filter (\<lambda>v. js_vendor_code v \<notin> set hidden) store = []"
  show "fr_overlapping_vendors (fst (filter_vendors store hidden)) = {}"
    "fs_overlap_rate (fr_statistics (fst (filter_vendors store hidden))) = 0"
    "fs_avg_orders (fr_statistics (fst (filter_vendors store hidden))) = 0"
    "fs_max_orders (fr_statistics (fst (filter_vendors store hidden))) = 0"
    by (simp_all add: filter_vendors_def Let_def e calculate_overlaps_for_vendors_def)
next
  assume e: "filter (\<lambda>v. js_vendor_code v \<notin> set hidden) store = [w]"
  show "fr_overlapping_vendors (fst (filter_vendors store hidden)) = {}"
    "fs_overlap_rate (fr_statistics (fst (filter_vendors store hidden))) = 0"
    "fs_avg_orders (fr_statistics (fst (filter_vendors store hidden)))
        = real_of_int (js_total_order_count w)"
    "fs_max_orders (fr_statistics (fst (filter_vendors store hidden)))
        = js_total_order_count w"
    by (simp_all add: filter_vendors_def Let_def e calculate_overlaps_for_vendors_def)
next
  assume "vendors_df st = []"
  then show "calculate_statistics st = st" by (simp add: calculate_statistics_def)
next
  show "\<exists>s. vendor_statistics (calculate_statistics
               (calculate_overlaps intersects intersection (init_processor [v]))) = Some s
          \<and> total_vendors s = 1 \<and> overlapping_vendors s = 0 \<and> overlap_rate s = 0
          \<and> vendor_density s = 0
          \<and> stat_mean (total_order_count_stats s) = Some (total_order_count v)
          \<and> stat_median (total_order_count_stats s) = Some (total_order_count v)
          \<and> stat_max (total_order_count_stats s) = Some (total_order_count v)
          \<and> stat_min (total_order_count_stats s) = Some (total_order_count v)
          \<and> stat_sum (total_order_count_stats s) = total_order_count v
          \<and> stat_mean (organic_order_count_stats s) = Some (organic_order_count v)
          \<and> stat_median (organic_order_count_stats s) = Some (organic_order_count v)
          \<and> stat_max (organic_order_count_stats s) = Some (organic_order_count v)
          \<and> stat_min (organic_order_count_stats s) = Some (organic_order_count v)
          \<and> stat_sum (organic_order_count_stats s) = organic_order_count v
          \<and> stat_mean (non_organic_order_count_stats s) = Some (non_organic_order_count v)
          \<and> stat_median (non_organic_order_count_stats s) = Some (non_organic_order_count v)
          \<and> stat_max (non_organic_order_count_stats s) = Some (non_organic_order_count v)
          \<and> stat_min (non_organic_order_count_stats s) = Some (non_organic_order_count v)
          \<and> stat_sum (non_organic_order_count_stats s) = non_organic_order_count v
          \<and> stat_mean (avg_daily_orders_stats s) = Some (avg_daily_orders v)
          \<and> stat_median (avg_daily_orders_stats s) = Some (avg_daily_orders v)
          \<and> stat_max (avg_daily_orders_stats s) = Some (avg_daily_orders v)
          \<and> stat_min (avg_daily_orders_stats s) = Some (avg_daily_orders v)
          \<and> stat_sum (avg_daily_orders_stats s) = avg_daily_orders v"
    unfolding calculate_overlaps_single
    by (simp add: calculate_statistics_def init_processor_def Let_def column_stats_single
        series_max_def series_min_def)
next
  assume a: "vendors_df st \<noteq> [] \<and>
        (Max (set (map latitude (vendors_df st))) = Min (set (map latitude (vendors_df st)))
         \<or> Max (set (map longitude (vendors_df st))) = Min (set (map longitude (vendors_df st))))"
  then obtain s where s: "vendor_statistics (calculate_statistics st) = Some s"
    "vendor_density s =
               (let area_km2 = (Max (set (map latitude (vendors_df st)))
                                  - Min (set (map latitude (vendors_df st))))
                               * (Max (set (map longitude (vendors_df st)))
                                  - Min (set (map longitude (vendors_df st))))
                               * 111000 * 111000 / 1000000
                in if 0 < area_km2 then real (length (vendors_df st)) / area_km2 else 0)"
    using calculate_statistics_density [of st] by blast
  have "vendor_density s = 0" unfolding s(2) using a by auto
  then show "\<exists>s. vendor_statistics (calculate_statistics st) = Some s \<and> vendor_density s = 0"
    using s(1) by blast
qed

text \<open>
  A corpus of one vendor with 100 orders: the mean of \<^verbatim>\<open>total_order_count\<close> is 100, not 0,
  and its standard deviation is NaN.
\<close>

theorem single_vendor_statistics_counterexample:
  "map_option (\<lambda>s. stat_mean (total_order_count_stats s))
     (vendor_statistics (calculate_statistics
        (calculate_overlaps simple_overlap (\<lambda>_ _. ())
           (init_processor [mk_vendor ''A'' 35.7 51.4 100 10])))) = Some (Some 100)
   \<and> map_option (\<lambda>s. stat_std (total_order_count_stats s))
     (vendor_statistics (calculate_statistics
        (calculate_overlaps simple_overlap (\<lambda>_ _. ())
           (init_processor [mk_vendor ''A'' 35.7 51.4 100 10])))) = Some None"
  unfolding calculate_overlaps_single
  by (simp add: calculate_statistics_def init_processor_def Let_def column_stats_single
      mk_vendor_def)

theorem small_corpus_statistics_witness:
  "filter (\<lambda>v. js_vendor_code v \<notin> set [''A'', ''B'', ''C'']) example_store = []
   \<and> fs_overlap_rate (fr_statistics (fst (filter_vendors example_store [''A'', ''B'', ''C''])))
       = 0
   \<and> fs_avg_orders (fr_statistics (fst (filter_vendors example_store [''A'', ''B'', ''C''])))
       = 0
   \<and> filter (\<lambda>v. js_vendor_code v \<notin> set [''B'', ''C'']) example_store
       = [mk_vendor_js ''A'' 35.70 51.40 100]
   \<and> fs_overlap_rate (fr_statistics (fst (filter_vendors example_store [''B'', ''C''])))
       = 0
   \<and> fs_avg_orders (fr_statistics (fst (filter_vendors example_store [''B'', ''C''])))
       = 100
   \<and> vendors_df (init_processor [] :: unit data_processor) = []
   \<and> calculate_statistics (init_processor [] :: unit data_processor) = init_processor []
   \<and> vendors_df (init_processor [mk_vendor ''A'' 35.7 51.4 100 10] :: unit data_processor)
       \<noteq> []
   \<and> (\<exists>s. vendor_statistics (calculate_statistics
              (init_processor [mk_vendor ''A'' 35.7 51.4 100 10] :: unit data_processor))
             = Some s \<and> vendor_density s = 0)"
proof -
  let ?v = "mk_vendor ''A'' 35.7 51.4 100 10"
  let ?w = "mk_vendor_js ''A'' 35.70 51.40 100"
  have e0: "filter (\<lambda>v. js_vendor_code v \<notin> set [''A'', ''B'', ''C'']) example_store = []"
    by (simp add: example_store_def mk_vendor_js_def vendor_dict_def mk_vendor_def)
  have e1: "filter (\<lambda>v. js_vendor_code v \<notin> set [''B'', ''C'']) example_store = [?w]"
    by (simp add: example_store_def mk_vendor_js_def vendor_dict_def mk_vendor_def)
  have w: "js_total_order_count ?w = 100"
    by (simp add: mk_vendor_js_def vendor_dict_def mk_vendor_def py_int_def)
  have d0: "vendors_df (init_processor [] :: unit data_processor) = []"
    by (simp add: init_processor_def)
  have d1: "vendors_df (init_processor [?v] :: unit data_processor) \<noteq> []
        \<and> (Max (set (map latitude (vendors_df (init_processor [?v] :: unit data_processor))))
             = Min (set (map latitude (vendors_df (init_processor [?v] :: unit data_processor))))
         \<or> Max (set (map longitude (vendors_df (init_processor [?v] :: unit data_processor))))
             = Min (set (map longitude
                     (vendors_df (init_processor [?v] :: unit data_processor)))))"
    by (simp add: init_processor_def)
  note t0 = small_corpus_statistics [of "[''A'', ''B'', ''C'']" example_store ?w
      "init_processor [] :: unit data_processor" simple_overlap "\<lambda>_ _. ()" ?v]
  note t1 = small_corpus_statistics [of "[''B'', ''C'']" example_store ?w
      "init_processor [?v] :: unit data_processor" simple_overlap "\<lambda>_ _. ()" ?v]
  have a: "fs_overlap_rate (fr_statistics (fst (filter_vendors example_store
              [''A'', ''B'', ''C'']))) = 0"
    "fs_avg_orders (fr_statistics (fst (filter_vendors example_store
              [''A'', ''B'', ''C'']))) = 0"
    "calculate_statistics (init_processor [] :: unit data_processor) = init_processor []"
    using t0 e0 d0 by blast+
  have b: "fs_overlap_rate (fr_statistics (fst (filter_vendors example_store
              [''B'', ''C'']))) = 0"
    "fs_avg_orders (fr_statistics (fst (filter_vendors example_store
              [''B'', ''C'']))) = real_of_int (js_total_order_count ?w)"
    using t1 e1 by blast+
  have c: "\<exists>s. vendor_statistics (calculate_statistics
              (init_processor [?v] :: unit data_processor)) = Some s \<and> vendor_density s = 0"
    using t1 d1 by blast
  show ?thesis using e0 e1 d0 d1 a b c w by simp
qed

section \<open>Unknown ranking metric\<close>

text \<open>
  C5, as the code has it. For a ranking name outside the recognized set,
  \<^verbatim>\<open>get_rankings\<close> answers with HTTP status 400 and the message
  \<^verbatim>\<open>Invalid ranking type: <name>\<close>, and \<^verbatim>\<open>get_ranking_data\<close> returns the empty list; both
  return to the caller.
\<close>

theorem unknown_ranking_metric:
  assumes "ranking_type \<notin> set (map fst RANKING_CRITERIA)"
  shows "get_rankings store hidden ranking_type
           = Error_response 400 (''Invalid ranking type: '' @ ranking_type)
       \<and> get_ranking_data sort_values st ranking_type hidden_vendors = []"
proof -
  have "map_of RANKING_CRITERIA ranking_type = None"
    using assms by (simp add: map_of_eq_None_iff)
  then show ?thesis
    by (simp add: get_rankings_def get_ranking_data_def ranking_mapping_def Let_def)
qed

text \<open>
  The name \<^verbatim>\<open>Bogus\<close>: the message of \<^verbatim>\<open>get_rankings\<close> names the offending metric and
  none of the recognized names, and \<^verbatim>\<open>get_ranking_data\<close> does not fail at all.
\<close>

theorem unknown_ranking_metric_counterexample:
  "get_rankings example_store {} ''Bogus'' = Error_response 400 ''Invalid ranking type: Bogus''
   \<and> list_all (\<lambda>name. \<not> mentions ''Invalid ranking type: Bogus'' name)
        (map fst RANKING_CRITERIA)
   \<and> get_ranking_data (\<lambda>key rows. rows) (example_processor simple_overlap) ''Bogus'' {} = []"
proof -
  have n: "''Bogus'' \<notin> set (map fst RANKING_CRITERIA)"
    by (simp add: RANKING_CRITERIA_def)
  have "map_of RANKING_CRITERIA ''Bogus'' = None"
    using n by (simp add: map_of_eq_None_iff)
  then have a: "get_rankings example_store {} ''Bogus''
                  = Error_response 400 ''Invalid ranking type: Bogus''"
    "get_ranking_data (\<lambda>key rows. rows) (example_processor simple_overlap) ''Bogus'' {} = []"
    by (simp_all add: get_rankings_def get_ranking_data_def ranking_mapping_def Let_def)
  have b: "list_all (\<lambda>name. \<not> mentions ''Invalid ranking type: Bogus'' name)
        (map fst RANKING_CRITERIA)"
    by (simp add: RANKING_CRITERIA_def mentions_def upt_rec)
  show ?thesis using a b by blast
qed

theorem unknown_ranking_metric_witness:
  "''Bogus'' \<notin> set (map fst RANKING_CRITERIA)
   \<and> get_rankings example_store {''A''} ''Bogus''
       = Error_response 400 ''Invalid ranking type: Bogus''
   \<and> get_ranking_data (\<lambda>key rows. rows) (example_processor simple_overlap) ''Bogus'' {''A''}
       = []"
proof -
  have n: "''Bogus'' \<notin> set (map fst RANKING_CRITERIA)"
    by (simp add: RANKING_CRITERIA_def)
  show ?thesis
    using unknown_ranking_metric [OF n, of example_store "{''A''}" "\<lambda>key rows. rows"
        "example_processor simple_overlap" "{''A''}"] n
    by simp
qed

section \<open>Ranking\<close>


















section \<open>Ranking by the table sort\<close>














lemma mk_vendor_code: "vendor_code (mk_vendor c lat lon orders daily) = c"
  by (simp add: mk_vendor_def)








section \<open>The cached overlap set and the recomputed one\<close>

lemma filter_vendors_real_time_overlaps:
  "hidden \<noteq> [] \<Longrightarrow>
   snd (filter_vendors_real_time st hidden) =
     codes_of_pairs (filter (\<lambda>(a, b). simple_overlap a b)
       (combinations2 (filter (\<lambda>v. vendor_code v \<notin> set hidden) (vendors_df st))))"
  by (simp add: filter_vendors_real_time_def Let_def calculate_overlaps_for_subset_eq
      codes_of_pairs_def)

lemma filter_no_hidden_row:
  "set hidden \<inter> vendor_code ` set df = {} \<Longrightarrow>
   filter (\<lambda>v. vendor_code v \<notin> set hidden) df = df"
  by (induction df) auto

text \<open>
  C10. Let \<open>st\<close> be the processor after the initial pass over the table \<open>df\<close>. With no
  hidden code, \<^verbatim>\<open>filter_vendors_real_time\<close> returns the stored overlap set, which for a
  table within the ceiling is the one exact mode found; with any hidden code it returns
  the approximate-mode set of the visible rows, and when no hidden code occurs in the
  table the visible rows are all rows. So the two answers for the same visible set
  differ whenever exact mode and approximate mode differ on the table.
\<close>

theorem cached_versus_recomputed_overlaps:
  assumes "st = calculate_statistics (calculate_overlaps intersects intersection
                  (init_processor df))"
  shows "filter_vendors_real_time st [] = (get_vendor_data_for_js st, overlapping_vendor_codes st)
       \<and> (length df \<le> MAX_VENDORS_FOR_OVERLAP \<longrightarrow>
            snd (filter_vendors_real_time st []) =
              codes_of_pairs (filter (\<lambda>(a, b). intersects a b) (combinations2 df)))
       \<and> (hidden \<noteq> [] \<longrightarrow>
            snd (filter_vendors_real_time st hidden) =
              codes_of_pairs (filter (\<lambda>(a, b). simple_overlap a b)
                (combinations2 (filter (\<lambda>v. vendor_code v \<notin> set hidden) df))))
       \<and> (hidden \<noteq> [] \<and> set hidden \<inter> vendor_code ` set df = {} \<longrightarrow>
            map js_vendor_code (fst (filter_vendors_real_time st hidden))
              = map js_vendor_code (fst (filter_vendors_real_time st []))
          \<and> snd (filter_vendors_real_time st hidden) =
              codes_of_pairs (filter (\<lambda>(a, b). simple_overlap a b) (combinations2 df)))
       \<and> (hidden \<noteq> [] \<and> set hidden \<inter> vendor_code ` set df = {}
          \<and> length df \<le> MAX_VENDORS_FOR_OVERLAP
          \<and> codes_of_pairs (filter (\<lambda>(a, b). intersects a b) (combinations2 df))
              \<noteq> codes_of_pairs (filter (\<lambda>(a, b). simple_overlap a b) (combinations2 df))
          \<longrightarrow> snd (filter_vendors_real_time st hidden) \<noteq> snd (filter_vendors_real_time st []))"
proof -
  have v: "vendors_df st = df"
    unfolding assms
    by (simp add: calculate_statistics_fields calculate_overlaps_vendors_df init_processor_def)
  have o: "overlapping_vendor_codes st =
             overlapping_vendor_codes (calculate_overlaps intersects intersection
                  (init_processor df))"
    unfolding assms by (simp add: calculate_statistics_fields)
  have 1: "filter_vendors_real_time st [] = (get_vendor_data_for_js st, overlapping_vendor_codes st)"
    by (simp add: filter_vendors_real_time_def)
  have 2: "snd (filter_vendors_real_time st []) =
              codes_of_pairs (filter (\<lambda>(a, b). intersects a b) (combinations2 df))"
    if "length df \<le> MAX_VENDORS_FOR_OVERLAP"
    using that by (simp add: 1 o calculate_overlaps_codes)
  have 3: "snd (filter_vendors_real_time st hidden) =
              codes_of_pairs (filter (\<lambda>(a, b). simple_overlap a b)
                (combinations2 (filter (\<lambda>v. vendor_code v \<notin> set hidden) df)))"
    if "hidden \<noteq> []"
    using filter_vendors_real_time_overlaps [OF that, of st] by (simp add: v)
  have 4: "map js_vendor_code (fst (filter_vendors_real_time st hidden))
              = map js_vendor_code (fst (filter_vendors_real_time st []))
          \<and> snd (filter_vendors_real_time st hidden) =
              codes_of_pairs (filter (\<lambda>(a, b). simple_overlap a b) (combinations2 df))"
    if "hidden \<noteq> [] \<and> set hidden \<inter> vendor_code ` set df = {}"
  proof -
    have f: "filter (\<lambda>v. vendor_code v \<notin> set hidden) df = df"
      using that by (intro filter_no_hidden_row) simp
    have "map js_vendor_code (fst (filter_vendors_real_time st hidden)) = map vendor_code df"
      by (simp add: filter_vendors_real_time_dicts v f vendor_dict_def comp_def)
    moreover have "map js_vendor_code (fst (filter_vendors_real_time st [])) = map vendor_code df"
      by (simp add: filter_vendors_real_time_dicts v vendor_dict_def comp_def)
    ultimately show ?thesis using 3 that f by simp
  qed
  have 5: "snd (filter_vendors_real_time st hidden) \<noteq> snd (filter_vendors_real_time st [])"
    if "hidden \<noteq> [] \<and> set hidden \<inter> vendor_code ` set df = {}
          \<and> length df \<le> MAX_VENDORS_FOR_OVERLAP
          \<and> codes_of_pairs (filter (\<lambda>(a, b). intersects a b) (combinations2 df))
              \<noteq> codes_of_pairs (filter (\<lambda>(a, b). simple_overlap a b) (combinations2 df))"
  proof -
    have "snd (filter_vendors_real_time st []) =
              codes_of_pairs (filter (\<lambda>(a, b). intersects a b) (combinations2 df))"
      using that 2 by blast
    moreover have "snd (filter_vendors_real_time st hidden) =
              codes_of_pairs (filter (\<lambda>(a, b). simple_overlap a b) (combinations2 df))"
      using that 4 by blast
    ultimately show ?thesis using that by metis
  qed
  show ?thesis using 1 2 3 4 5 by blast
qed

lemma example_parallel_tests:
  "example_exact_overlap (mk_vendor ''E'' 35.7 51.40 100 10) (mk_vendor ''F'' 35.7 51.46 50 5)"
  "\<not> simple_overlap (mk_vendor ''E'' 35.7 51.40 100 10) (mk_vendor ''F'' 35.7 51.46 50 5)"
  by (simp_all add: example_exact_overlap_def simple_overlap_iff mk_vendor_def
      overlap_threshold_def SERVICE_RADIUS_def power2_eq_square)

theorem cached_versus_recomputed_overlaps_witness:
  "length example_parallel_df \<le> MAX_VENDORS_FOR_OVERLAP
   \<and> [''Z''] \<noteq> [] \<and> set [''Z''] \<inter> vendor_code ` set example_parallel_df = {}
   \<and> map js_vendor_code (fst (filter_vendors_real_time
         (calculate_statistics (calculate_overlaps example_exact_overlap (\<lambda>_ _. ())
            (init_processor example_parallel_df))) [''Z'']))
       = map js_vendor_code (fst (filter_vendors_real_time
         (calculate_statistics (calculate_overlaps example_exact_overlap (\<lambda>_ _. ())
            (init_processor example_parallel_df))) []))
   \<and> snd (filter_vendors_real_time
         (calculate_statistics (calculate_overlaps example_exact_overlap (\<lambda>_ _. ())
            (init_processor example_parallel_df))) []) = {''E'', ''F''}
   \<and> snd (filter_vendors_real_time
         (calculate_statistics (calculate_overlaps example_exact_overlap (\<lambda>_ _. ())
            (init_processor example_parallel_df))) [''Z'']) = {}
   \<and> codes_of_pairs (filter (\<lambda>(a, b). example_exact_overlap a b)
         (combinations2 example_parallel_df))
       \<noteq> codes_of_pairs (filter (\<lambda>(a, b). simple_overlap a b)
           (combinations2 example_parallel_df))
   \<and> snd (filter_vendors_real_time
         (calculate_statistics (calculate_overlaps example_exact_overlap (\<lambda>_ _. ())
            (init_processor example_parallel_df))) [''Z''])
       \<noteq> snd (filter_vendors_real_time
           (calculate_statistics (calculate_overlaps example_exact_overlap (\<lambda>_ _. ())
              (init_processor example_parallel_df))) [])"
proof -
  let ?st = "calculate_statistics (calculate_overlaps example_exact_overlap (\<lambda>_ _. ())
            (init_processor example_parallel_df)) :: unit data_processor"
  have l: "length example_parallel_df \<le> MAX_VENDORS_FOR_OVERLAP"
    by (simp add: example_parallel_df_def MAX_VENDORS_FOR_OVERLAP_def)
  have h: "[''Z''] \<noteq> [] \<and> set [''Z''] \<inter> vendor_code ` set example_parallel_df = {}"
    by (simp add: example_parallel_df_def mk_vendor_def)
  note t = cached_versus_recomputed_overlaps [OF refl, of example_exact_overlap "\<lambda>_ _. ()"
      example_parallel_df "[''Z'']"]
  have c: "combinations2 example_parallel_df =
             [(mk_vendor ''E'' 35.7 51.40 100 10, mk_vendor ''F'' 35.7 51.46 50 5)]"
    by (simp add: example_parallel_df_def)
  have a0: "snd (filter_vendors_real_time ?st []) =
              codes_of_pairs (filter (\<lambda>(a, b). example_exact_overlap a b)
                (combinations2 example_parallel_df))"
    using t l by blast
  have a: "snd (filter_vendors_real_time ?st []) = {''E'', ''F''}"
    unfolding a0 c
    by (auto simp: example_parallel_tests [simplified] codes_of_pairs_def mk_vendor_code)
  have b0: "snd (filter_vendors_real_time ?st [''Z'']) =
              codes_of_pairs (filter (\<lambda>(a, b). simple_overlap a b)
                (combinations2 example_parallel_df))"
    using t h by blast
  have b: "snd (filter_vendors_real_time ?st [''Z'']) = {}"
    unfolding b0 c
    by (simp add: example_parallel_tests [simplified] codes_of_pairs_def)
  have d: "map js_vendor_code (fst (filter_vendors_real_time ?st [''Z'']))
       = map js_vendor_code (fst (filter_vendors_real_time ?st []))"
    using t h by blast
  have ne: "codes_of_pairs (filter (\<lambda>(a, b). example_exact_overlap a b)
         (combinations2 example_parallel_df))
       \<noteq> codes_of_pairs (filter (\<lambda>(a, b). simple_overlap a b)
           (combinations2 example_parallel_df))"
    using a b unfolding a0 b0 by simp
  have diff: "snd (filter_vendors_real_time ?st [''Z''])
                \<noteq> snd (filter_vendors_real_time ?st [])"
    using t l h ne by blast
  show ?thesis using l h a b d ne diff by blast
qed

end
